theory Spec2Isabelle
  imports Main "HOL-Library.Word" "HOL-Library.Sublist"
begin

section \<open>Python values used by the handler\<close>

text \<open>
  A Python \<open>str\<close> is a sequence of Unicode code points; it is modelled as a list of
  natural numbers, so that the line boundaries and the white space beyond ASCII that
  \<open>str.splitlines\<close> and \<open>str.strip\<close> know are part of the model. \<open>u\<close> writes an
  ASCII literal. \<open>bytes\<close> is a list of octets.
\<close>

type_synonym pystr = "nat list"
type_synonym bytes = "8 word list"

definition u :: "string \<Rightarrow> pystr" where
  "u cs = map of_char cs"

text \<open>
  The values \<open>json.loads\<close> returns: \<open>None\<close>, \<open>bool\<close>, \<open>int\<close> (unbounded),
  \<open>float\<close> (kept as its IEEE-754 binary64 pattern; the handler never computes with
  it), \<open>str\<close>, \<open>list\<close> and \<open>dict\<close>. A dict keeps its keys in insertion order, so
  it is an association list; \<open>json.loads\<close> builds dicts with string keys.
\<close>

datatype pyobj =
    JNone
  | JBool bool
  | JInt int
  | JFloat "64 word"
  | JStr pystr
  | JList "pyobj list"
  | JDict "(pystr \<times> pyobj) list"

text \<open>
  The exceptions that can travel through the handler. \<open>JSONDecodeError\<close> is the one
  class the handler catches; \<open>ValueError\<close> stands for a \<open>ValueError\<close> that is not a
  \<open>JSONDecodeError\<close>. \<open>ClientError\<close> carries the error code of the storage service.
\<close>

datatype exn =
    JSONDecodeError
  | ValueError
  | RecursionError
  | AttributeError
  | TypeError
  | UnicodeDecodeError
  | UnicodeEncodeError
  | BadGzipFile
  | EOFError
  | ClientError string
  | EndpointConnectionError

subsection \<open>String methods\<close>

text \<open>
  \<open>str.isspace\<close> of one character, the set \<open>str.strip()\<close> removes: the code points
  with bidirectional class WS, B or S or of category Zs.
\<close>

definition isspace :: "nat \<Rightarrow> bool" where
  "isspace c =
     ((9 \<le> c \<and> c \<le> 13) \<or> (28 \<le> c \<and> c \<le> 32) \<or> c = 133 \<or> c = 160 \<or> c = 5760 \<or>
      (8192 \<le> c \<and> c \<le> 8202) \<or> c = 8232 \<or> c = 8233 \<or> c = 8239 \<or> c = 8287 \<or>
      c = 12288)"

text \<open>\<open>line.strip()\<close>: leading and trailing white space removed.\<close>

definition strip :: "pystr \<Rightarrow> pystr" where
  "strip s = rev (dropWhile isspace (rev (dropWhile isspace s)))"

text \<open>
  The line boundaries of \<open>str.splitlines\<close>: LF, VT, FF, CR, FS, GS, RS, NEL, LS and PS.
\<close>

definition is_linebreak :: "nat \<Rightarrow> bool" where
  "is_linebreak c =
     ((10 \<le> c \<and> c \<le> 13) \<or> (28 \<le> c \<and> c \<le> 30) \<or> c = 133 \<or> c = 8232 \<or> c = 8233)"

text \<open>
  \<open>file_content.splitlines()\<close>: the text is cut at every line boundary, CR LF counting
  as one; the boundaries are dropped, and a boundary at the very end opens no further
  (empty) line. \<open>cur\<close> is the line being read, reversed.
\<close>

fun splitlines_from :: "pystr \<Rightarrow> pystr \<Rightarrow> pystr list" where
  "splitlines_from cur [] = (if cur = [] then [] else [rev cur])"
| "splitlines_from cur [c] =
     (if is_linebreak c then [rev cur] else [rev (c # cur)])"
| "splitlines_from cur (c # d # cs) =
     (if c = 13 \<and> d = 10 then rev cur # splitlines_from [] cs
      else if is_linebreak c then rev cur # splitlines_from [] (d # cs)
      else splitlines_from (c # cur) (d # cs))"

definition splitlines :: "pystr \<Rightarrow> pystr list" where
  "splitlines s = splitlines_from [] s"

text \<open>\<open>sep.join(xs)\<close>.\<close>

fun join :: "pystr \<Rightarrow> pystr list \<Rightarrow> pystr" where
  "join sep [] = []"
| "join sep [x] = x"
| "join sep (x # y # ys) = x @ sep @ join sep (y # ys)"

text \<open>\<open>s.startswith(p)\<close> and \<open>s.endswith(x)\<close>.\<close>

definition startswith :: "pystr \<Rightarrow> pystr \<Rightarrow> bool" where
  "startswith s p = (take (length p) s = p)"

definition endswith :: "pystr \<Rightarrow> pystr \<Rightarrow> bool" where
  "endswith s x = (length x \<le> length s \<and> drop (length s - length x) s = x)"

subsection \<open>Dict methods\<close>

text \<open>
  \<open>d.pop(k, None)\<close> removes the key when it is there and does nothing otherwise;
  \<open>d[k] = v\<close> replaces the value of a key in place, or appends a new key at the end.
\<close>

definition dict_pop :: "(pystr \<times> pyobj) list \<Rightarrow> pystr \<Rightarrow> (pystr \<times> pyobj) list" where
  "dict_pop d k = filter (\<lambda>kv. fst kv \<noteq> k) d"

primrec dict_setitem :: "(pystr \<times> pyobj) list \<Rightarrow> pystr \<Rightarrow> pyobj \<Rightarrow> (pystr \<times> pyobj) list" where
  "dict_setitem [] k v = [(k, v)]"
| "dict_setitem (p # ps) k v = (if fst p = k then (k, v) # ps else p # dict_setitem ps k v)"

text \<open>
  \<open>event_obj.pop(k, None)\<close> on whatever \<open>json.loads\<close> returned. Only a dict has a
  two-argument \<open>pop\<close>: a list's \<open>pop\<close> takes at most one argument (TypeError), and
  \<open>str\<close>, \<open>int\<close>, \<open>float\<close>, \<open>bool\<close> and \<open>None\<close> have no \<open>pop\<close> at all
  (AttributeError). The result is the object after the call.
\<close>

fun py_pop :: "pyobj \<Rightarrow> pystr \<Rightarrow> exn + pyobj" where
  "py_pop (JDict d) k = Inr (JDict (dict_pop d k))"
| "py_pop (JList xs) k = Inl TypeError"
| "py_pop other k = Inl AttributeError"

text \<open>\<open>event_obj[k] = v\<close> with a string key: only a dict accepts it.\<close>

fun py_setitem :: "pyobj \<Rightarrow> pystr \<Rightarrow> pyobj \<Rightarrow> exn + pyobj" where
  "py_setitem (JDict d) k v = Inr (JDict (dict_setitem d k v))"
| "py_setitem other k v = Inl TypeError"

subsection \<open>Timestamps\<close>

text \<open>
  A \<open>datetime\<close> in UTC, as \<open>datetime.now(timezone.utc)\<close> returns it.
\<close>

record datetime =
  year :: nat
  month :: nat
  day :: nat
  hour :: nat
  minute :: nat
  second :: nat
  microsecond :: nat

text \<open>The decimal digits of a number, and \<open>%0wd\<close>: zeros on the left up to width \<open>w\<close>.\<close>

fun decimal :: "nat \<Rightarrow> pystr" where
  "decimal n = (if n < 10 then [48 + n] else decimal (n div 10) @ [48 + n mod 10])"

definition zero_pad :: "nat \<Rightarrow> nat \<Rightarrow> pystr" where
  "zero_pad w n = replicate (w - length (decimal n)) 48 @ decimal n"

text \<open>
  \<open>isoformat()\<close> of an aware UTC datetime: \<open>YYYY-MM-DDTHH:MM:SS+00:00\<close>, with
  \<open>.ffffff\<close> after the seconds when the microsecond is not zero.
\<close>

definition isoformat :: "datetime \<Rightarrow> pystr" where
  "isoformat dt =
     zero_pad 4 (year dt) @ u ''-'' @ zero_pad 2 (month dt) @ u ''-'' @ zero_pad 2 (day dt) @
     u ''T'' @ zero_pad 2 (hour dt) @ u '':'' @ zero_pad 2 (minute dt) @ u '':'' @
     zero_pad 2 (second dt) @
     (if microsecond dt \<noteq> 0 then u ''.'' @ zero_pad 6 (microsecond dt) else []) @
     u ''+00:00''"

section \<open>The world outside the handler\<close>

text \<open>
  An S3 event notification, with the two fields the handler reads:
  \<open>record["s3"]["bucket"]["name"]\<close> and \<open>record["s3"]["object"]["key"]\<close>. The event's
  \<open>Records\<close> is \<open>None\<close> when the event has no such key.
\<close>

record s3_notification =
  bucket_name :: pystr
  object_key :: pystr

record event =
  Records :: "s3_notification list option"

text \<open>
  The calls made to the storage service, in the order they were made:
  \<open>get_object(Bucket, Key)\<close> and \<open>put_object(Bucket, Key, Body, ContentType)\<close>.
\<close>

datatype s3_call =
    GetObject pystr pystr
  | PutObject pystr pystr bytes pystr

text \<open>
  What the handler has done to the world so far: the storage calls, and how many times
  the clock has been read.
\<close>

record world =
  s3_calls :: "s3_call list"
  clock_reads :: nat

text \<open>
  The libraries and services the handler calls are parameters of the model:
  \<^item> \<open>unquote_plus\<close> is \<open>urllib.parse.unquote_plus\<close>;
  \<^item> \<open>s3_get_object calls bucket key\<close> is what \<open>s3.get_object\<close> followed by
    \<open>Body.read()\<close> gives after the calls \<open>calls\<close>: the bytes or an exception;
  \<^item> \<open>s3_put_object calls bucket key body content_type\<close> is the exception
    \<open>s3.put_object\<close> raises, if any;
  \<^item> \<open>gzip_read\<close> is \<open>gzip.GzipFile(...).read()\<close>;
  \<^item> \<open>decode_utf8\<close> and \<open>encode_utf8\<close> are \<open>bytes.decode("utf-8")\<close> and
    \<open>str.encode("utf-8")\<close>;
  \<^item> \<open>json_loads\<close> and \<open>json_dumps\<close> are \<open>json.loads\<close> and \<open>json.dumps\<close>;
  \<^item> \<open>datetime_now n\<close> is what the clock shows when it is read for the \<open>n\<close>-th time
    (counting from 0).
\<close>

record env =
  unquote_plus :: "pystr \<Rightarrow> pystr"
  s3_get_object :: "s3_call list \<Rightarrow> pystr \<Rightarrow> pystr \<Rightarrow> exn + bytes"
  s3_put_object :: "s3_call list \<Rightarrow> pystr \<Rightarrow> pystr \<Rightarrow> bytes \<Rightarrow> pystr \<Rightarrow> exn option"
  gzip_read :: "bytes \<Rightarrow> exn + bytes"
  decode_utf8 :: "bytes \<Rightarrow> exn + pystr"
  encode_utf8 :: "pystr \<Rightarrow> exn + bytes"
  json_loads :: "pystr \<Rightarrow> exn + pyobj"
  json_dumps :: "pyobj \<Rightarrow> pystr"
  datetime_now :: "nat \<Rightarrow> datetime"

section \<open>The handler\<close>

text \<open>
  The loop over the lines of one object (lines 48 to 65 of \<open>processor.py\<close>).
  \<open>transformed_lines\<close> is the list built so far and \<open>n\<close> the number of clock reads so
  far; the result is the finished list or the exception that left the loop, with the
  number of clock reads.
\<close>

fun process_lines :: "env \<Rightarrow> pystr list \<Rightarrow> pystr list \<Rightarrow> nat \<Rightarrow> (exn + pystr list) \<times> nat" where
  "process_lines E [] transformed_lines n = (Inr transformed_lines, n)"
| "process_lines E (raw_line # rest) transformed_lines n =
     (let line = strip raw_line in
      if line = [] then process_lines E rest transformed_lines n
      else
        (case json_loads E line of
           Inl e \<Rightarrow>
             (if e = JSONDecodeError then process_lines E rest transformed_lines n
              else (Inl e, n))
         | Inr event_obj \<Rightarrow>
             (case py_pop event_obj (u ''user_id'') of
                Inl e \<Rightarrow> (Inl e, n)
              | Inr popped \<Rightarrow>
                  (case py_setitem popped (u ''processed_ts'')
                          (JStr (isoformat (datetime_now E n))) of
                     Inl e \<Rightarrow> (Inl e, Suc n)
                   | Inr stamped \<Rightarrow>
                       process_lines E rest (transformed_lines @ [json_dumps E stamped])
                         (Suc n)))))"

text \<open>The destination key of a source key (lines 78 to 86).\<close>

definition dest_key :: "pystr \<Rightarrow> pystr" where
  "dest_key src_key =
     (let d = (if startswith src_key (u ''raw/'')
               then u ''processed/'' @ drop (length (u ''raw/'')) src_key
               else u ''processed/'' @ src_key)
      in if endswith d (u ''.gz'') then take (length d - 3) d @ u ''json'' else d)"

text \<open>
  One turn of the loop over the notifications (lines 32 to 94): the exception that
  ended it, if any, and the world after it.
\<close>

definition process_record :: "env \<Rightarrow> world \<Rightarrow> s3_notification \<Rightarrow> exn option \<times> world" where
  "process_record E w notification =
     (let src_bucket = bucket_name notification;
          src_key = unquote_plus E (object_key notification);
          w1 = w\<lparr>s3_calls := s3_calls w @ [GetObject src_bucket src_key]\<rparr>
      in case s3_get_object E (s3_calls w) src_bucket src_key of
           Inl e \<Rightarrow> (Some e, w1)
         | Inr raw_body \<Rightarrow>
      (case gzip_read E raw_body of
           Inl e \<Rightarrow> (Some e, w1)
         | Inr decompressed \<Rightarrow>
      (case decode_utf8 E decompressed of
           Inl e \<Rightarrow> (Some e, w1)
         | Inr file_content \<Rightarrow>
      (case process_lines E (splitlines file_content) [] (clock_reads w1) of
           (Inl e, n) \<Rightarrow> (Some e, w1\<lparr>clock_reads := n\<rparr>)
         | (Inr transformed_lines, n) \<Rightarrow>
      (let w2 = w1\<lparr>clock_reads := n\<rparr> in
       if transformed_lines = [] then (None, w2)
       else
      (case encode_utf8 E (join (u [CHR 0x0A]) transformed_lines) of
           Inl e \<Rightarrow> (Some e, w2)
         | Inr transformed_body \<Rightarrow>
      (let key = dest_key src_key;
           w3 = w2\<lparr>s3_calls := s3_calls w2 @
                  [PutObject src_bucket key transformed_body (u ''application/json'')]\<rparr>
       in (s3_put_object E (s3_calls w2) src_bucket key transformed_body
             (u ''application/json''), w3))))))))"

text \<open>The loop over the notifications: it stops at the first exception.\<close>

fun process_records :: "env \<Rightarrow> world \<Rightarrow> s3_notification list \<Rightarrow> exn option \<times> world" where
  "process_records E w [] = (None, w)"
| "process_records E w (notification # rest) =
     (case process_record E w notification of
        (Some e, w') \<Rightarrow> (Some e, w')
      | (None, w') \<Rightarrow> process_records E w' rest)"

text \<open>The value the handler returns: \<open>{"status": "ok"}\<close>.\<close>

definition status_ok :: pyobj where
  "status_ok = JDict [(u ''status'', JStr (u ''ok''))]"

text \<open>
  \<open>lambda_handler(event, context)\<close>: the returned value or the exception that left the
  handler, and the world after it. \<open>event.get("Records", [])\<close> is the empty list when
  the key is missing. The handler never looks at \<open>context\<close>.
\<close>

definition lambda_handler :: "env \<Rightarrow> world \<Rightarrow> event \<Rightarrow> 'c \<Rightarrow> (exn + pyobj) \<times> world" where
  "lambda_handler E w ev ctx =
     (case process_records E w (case Records ev of None \<Rightarrow> [] | Some rs \<Rightarrow> rs) of
        (Some e, w') \<Rightarrow> (Inl e, w')
      | (None, w') \<Rightarrow> (Inr status_ok, w'))"

declare decimal.simps [simp del]

section \<open>Notions of the specification\<close>

text \<open>
  What the specification says of a line, read off the handler's parameters: it is blank
  after trimming, it fails JSON parsing, it parses as a JSON object, it parses as some
  other JSON value, or the parser left with an exception other than
  \<open>JSONDecodeError\<close>.
\<close>

datatype line_kind =
    Blank
  | Malformed
  | ObjectLine "(pystr \<times> pyobj) list"
  | OtherJson pyobj
  | ParserCrash exn

definition classify :: "env \<Rightarrow> pystr \<Rightarrow> line_kind" where
  "classify E raw_line =
     (if strip raw_line = [] then Blank
      else case json_loads E (strip raw_line) of
             Inl e \<Rightarrow> (if e = JSONDecodeError then Malformed else ParserCrash e)
           | Inr (JDict d) \<Rightarrow> ObjectLine d
           | Inr v \<Rightarrow> OtherJson v)"

text \<open>A line the specification lets through: blank, malformed or an object.\<close>

definition tolerated :: "env \<Rightarrow> pystr \<Rightarrow> bool" where
  "tolerated E raw_line =
     (case classify E raw_line of
        Blank \<Rightarrow> True | Malformed \<Rightarrow> True | ObjectLine d \<Rightarrow> True
      | OtherJson v \<Rightarrow> False | ParserCrash e \<Rightarrow> False)"

text \<open>A line that yields no record: blank or malformed.\<close>

definition skipped :: "env \<Rightarrow> pystr \<Rightarrow> bool" where
  "skipped E raw_line =
     (case classify E raw_line of
        Blank \<Rightarrow> True | Malformed \<Rightarrow> True | ObjectLine d \<Rightarrow> False
      | OtherJson v \<Rightarrow> False | ParserCrash e \<Rightarrow> False)"

definition object_of :: "env \<Rightarrow> pystr \<Rightarrow> (pystr \<times> pyobj) list option" where
  "object_of E raw_line =
     (case classify E raw_line of ObjectLine d \<Rightarrow> Some d | other \<Rightarrow> None)"

text \<open>The objects of the lines that parse as objects, in the order of the lines.\<close>

definition object_lines :: "env \<Rightarrow> pystr list \<Rightarrow> (pystr \<times> pyobj) list list" where
  "object_lines E ls = List.map_filter (object_of E) ls"

text \<open>
  The transformed record of a parsed object \<open>d\<close> whose transformation reads the clock
  for the \<open>n\<close>-th time, and its output line.
\<close>

definition transformed :: "env \<Rightarrow> (pystr \<times> pyobj) list \<Rightarrow> nat \<Rightarrow> (pystr \<times> pyobj) list" where
  "transformed E d n =
     dict_setitem (dict_pop d (u ''user_id'')) (u ''processed_ts'')
       (JStr (isoformat (datetime_now E n)))"

definition output_line :: "env \<Rightarrow> (pystr \<times> pyobj) list \<Rightarrow> nat \<Rightarrow> pystr" where
  "output_line E d n = json_dumps E (JDict (transformed E d n))"

text \<open>
  The datetimes a clock can show: the ranges of the fields of Python's \<open>datetime\<close>
  (the day is only bounded by 31).
\<close>

definition valid_datetime :: "datetime \<Rightarrow> bool" where
  "valid_datetime dt =
     (1 \<le> year dt \<and> year dt \<le> 9999 \<and> 1 \<le> month dt \<and> month dt \<le> 12 \<and>
      1 \<le> day dt \<and> day dt \<le> 31 \<and> hour dt < 24 \<and> minute dt < 60 \<and> second dt < 60 \<and>
      microsecond dt < 1000000)"

text \<open>
  A syntactically valid ISO-8601 timestamp in UTC, extended format:
  \<open>YYYY-MM-DDThh:mm:ss\<close>, an optional fraction of a second (a dot and at least one
  digit), and the zone \<open>+00:00\<close> or \<open>Z\<close>; month, day, hour, minute and second within
  their ranges.
\<close>

definition is_digit :: "nat \<Rightarrow> bool" where
  "is_digit c = (48 \<le> c \<and> c \<le> 57)"

definition digits :: "nat \<Rightarrow> pystr \<Rightarrow> bool" where
  "digits k s = (length s = k \<and> list_all is_digit s)"

definition digits_value :: "pystr \<Rightarrow> nat" where
  "digits_value s = foldl (\<lambda>a c. 10 * a + (c - 48)) 0 s"

definition in_range :: "nat \<Rightarrow> nat \<Rightarrow> pystr \<Rightarrow> bool" where
  "in_range lo hi s = (digits 2 s \<and> lo \<le> digits_value s \<and> digits_value s \<le> hi)"

definition is_utc_zone :: "pystr \<Rightarrow> bool" where
  "is_utc_zone z = (z = u ''+00:00'' \<or> z = u ''Z'')"

definition is_iso8601_utc :: "pystr \<Rightarrow> bool" where
  "is_iso8601_utc s =
     (digits 4 (take 4 s) \<and> take 1 (drop 4 s) = u ''-'' \<and>
      in_range 1 12 (take 2 (drop 5 s)) \<and> take 1 (drop 7 s) = u ''-'' \<and>
      in_range 1 31 (take 2 (drop 8 s)) \<and> take 1 (drop 10 s) = u ''T'' \<and>
      in_range 0 23 (take 2 (drop 11 s)) \<and> take 1 (drop 13 s) = u '':'' \<and>
      in_range 0 59 (take 2 (drop 14 s)) \<and> take 1 (drop 16 s) = u '':'' \<and>
      in_range 0 59 (take 2 (drop 17 s)) \<and>
      (if take 1 (drop 19 s) = u ''.''
       then takeWhile is_digit (drop 20 s) \<noteq> [] \<and> is_utc_zone (dropWhile is_digit (drop 20 s))
       else is_utc_zone (drop 19 s)))"

text \<open>
  The lines a run of the loop over \<open>ls\<close> is expected to produce when it starts at clock
  read \<open>n\<close>: one line for each object, in order, the \<open>i\<close>-th of them with the clock
  read \<open>n + i\<close>.
\<close>

definition expected :: "env \<Rightarrow> pystr list \<Rightarrow> nat \<Rightarrow> pystr list" where
  "expected E ls n =
     map2 (output_line E) (object_lines E ls) [n ..< n + length (object_lines E ls)]"

text \<open>
  The decompressed, decoded text of the object a notification names (lines 38 to 43), or
  the exception that reading, decompressing or decoding it raised.
\<close>

definition file_content :: "env \<Rightarrow> world \<Rightarrow> s3_notification \<Rightarrow> exn + pystr" where
  "file_content E w notification =
     (case s3_get_object E (s3_calls w) (bucket_name notification)
             (unquote_plus E (object_key notification)) of
        Inl e \<Rightarrow> Inl e
      | Inr raw_body \<Rightarrow>
          (case gzip_read E raw_body of
             Inl e \<Rightarrow> Inl e
           | Inr decompressed \<Rightarrow> decode_utf8 E decompressed))"

text \<open>The read of a notification's object, and the world right after it.\<close>

definition read_of :: "env \<Rightarrow> s3_notification \<Rightarrow> s3_call" where
  "read_of E notification =
     GetObject (bucket_name notification) (unquote_plus E (object_key notification))"

definition after_read :: "env \<Rightarrow> world \<Rightarrow> s3_notification \<Rightarrow> world" where
  "after_read E w notification = w\<lparr>s3_calls := s3_calls w @ [read_of E notification]\<rparr>"

text \<open>Whether a storage call is a read.\<close>

fun is_read :: "s3_call \<Rightarrow> bool" where
  "is_read (GetObject bucket key) = True"
| "is_read (PutObject bucket key body content_type) = False"

section \<open>A concrete environment for the examples\<close>

text \<open>
  The examples run the handler in a small environment. Its library functions agree with
  the real ones on the inputs the examples use, and only there.
\<close>

definition hex_value :: "nat \<Rightarrow> nat option" where
  "hex_value c =
     (if 48 \<le> c \<and> c \<le> 57 then Some (c - 48)
      else if 97 \<le> c \<and> c \<le> 102 then Some (c - 87)
      else if 65 \<le> c \<and> c \<le> 70 then Some (c - 55)
      else None)"

text \<open>
  Percent-decoding of the escapes below \<open>%80\<close>; an escape from \<open>%80\<close> on is left as it
  is (the real function decodes those as UTF-8).
\<close>

fun percent_decode_ascii :: "pystr \<Rightarrow> pystr" where
  "percent_decode_ascii (c # h # l # rest) =
     (case (c = 37, hex_value h, hex_value l) of
        (True, Some a, Some b) \<Rightarrow>
          (if 16 * a + b < 128 then (16 * a + b) # percent_decode_ascii rest
           else c # percent_decode_ascii (h # l # rest))
      | other \<Rightarrow> c # percent_decode_ascii (h # l # rest))"
| "percent_decode_ascii cs = cs"

definition example_unquote_plus :: "pystr \<Rightarrow> pystr" where
  "example_unquote_plus s = percent_decode_ascii (map (\<lambda>c. if c = 43 then 32 else c) s)"

text \<open>
  A stand-in for gzip: the two magic bytes of a gzip member, then the content as it is.
\<close>

definition example_gzip :: "pystr \<Rightarrow> bytes" where
  "example_gzip content = [0x1F, 0x8B] @ map of_nat content"

definition example_gzip_read :: "bytes \<Rightarrow> exn + bytes" where
  "example_gzip_read bs = (if take 2 bs = [0x1F, 0x8B] then Inr (drop 2 bs) else Inl BadGzipFile)"

text \<open>UTF-8 on ASCII text; the byte 0xFF stands in no UTF-8 text.\<close>

definition example_decode_utf8 :: "bytes \<Rightarrow> exn + pystr" where
  "example_decode_utf8 bs =
     (if list_all (\<lambda>b. b < 128) bs then Inr (map unat bs) else Inl UnicodeDecodeError)"

definition example_encode_utf8 :: "pystr \<Rightarrow> exn + bytes" where
  "example_encode_utf8 s =
     (if list_all (\<lambda>c. c < 128) s then Inr (map of_nat s) else Inl UnicodeEncodeError)"

text \<open>\<open>json.loads\<close> on the lines of the examples; every other line counts as malformed.\<close>

definition example_json_loads :: "pystr \<Rightarrow> exn + pyobj" where
  \<open>example_json_loads line =
     (if line = u ''{"user_id": "u1", "x": 1}''
        then Inr (JDict [(u ''user_id'', JStr (u ''u1'')), (u ''x'', JInt 1)])
      else if line = u ''{"user_id": "u2", "x": 2}''
        then Inr (JDict [(u ''user_id'', JStr (u ''u2'')), (u ''x'', JInt 2)])
      else if line = u ''{"a": 1}'' then Inr (JDict [(u ''a'', JInt 1)])
      else if line = u ''{"processed_ts": "old"}''
        then Inr (JDict [(u ''processed_ts'', JStr (u ''old''))])
      else if line = u ''5'' then Inr (JInt 5)
      else if line = u ''[1]'' then Inr (JList [JInt 1])
      else Inl JSONDecodeError)\<close>

text \<open>
  \<open>json.dumps\<close> on flat objects whose values are integers, booleans, \<open>None\<close> and
  strings of plain ASCII; any other value is written \<open>null\<close>.
\<close>

definition example_atom :: "pyobj \<Rightarrow> pystr" where
  \<open>example_atom v =
     (case v of
        JStr s \<Rightarrow> u ''"'' @ s @ u ''"''
      | JInt i \<Rightarrow> (if i < 0 then u ''-'' else []) @ decimal (nat \<bar>i\<bar>)
      | JBool b \<Rightarrow> (if b then u ''true'' else u ''false'')
      | other \<Rightarrow> u ''null'')\<close>

definition example_json_dumps :: "pyobj \<Rightarrow> pystr" where
  \<open>example_json_dumps v =
     (case v of
        JDict d \<Rightarrow>
          u ''{'' @ join (u '', '') (map (\<lambda>kv. u ''"'' @ fst kv @ u ''": '' @ example_atom (snd kv)) d)
          @ u ''}''
      | other \<Rightarrow> example_atom v)\<close>

text \<open>A clock that starts at noon on 26 November 2025 and advances one microsecond a read.\<close>

definition example_now :: "nat \<Rightarrow> datetime" where
  "example_now n =
     \<lparr>year = 2025, month = 11, day = 26, hour = 12, minute = 0,
      second = (n div 1000000) mod 60, microsecond = n mod 1000000\<rparr>"

text \<open>The objects of the bucket \<open>clicks\<close>; every other key is missing.\<close>

definition two_users_text :: pystr where
  \<open>two_users_text =
     u ''{"user_id": "u1", "x": 1}'' @ [10] @ u ''{"user_id": "u2", "x": 2}'' @ [10]\<close>

definition mixed_text :: pystr where
  \<open>mixed_text = u ''not json'' @ [10, 10] @ u ''{"a": 1}'' @ [10]\<close>

definition blank_text :: pystr where
  \<open>blank_text = [10] @ u ''   '' @ [10] @ u ''not json'' @ [10]\<close>

definition scalar_text :: pystr where
  \<open>scalar_text = u ''{"a": 1}'' @ [10] @ u ''5'' @ [10]\<close>

definition list_text :: pystr where
  \<open>list_text = u ''[1]''\<close>

definition example_get_object :: "s3_call list \<Rightarrow> pystr \<Rightarrow> pystr \<Rightarrow> exn + bytes" where
  "example_get_object calls bucket key =
     (if bucket \<noteq> u ''clicks'' then Inl (ClientError ''NoSuchBucket'')
      else if key = u ''raw/year=2025/month=11/day=26/file.gz''
        then Inr (example_gzip two_users_text)
      else if key = u ''raw/mixed.gz'' then Inr (example_gzip mixed_text)
      else if key = u ''raw/blank.gz'' then Inr (example_gzip blank_text)
      else if key = u ''raw/scalar.gz'' then Inr (example_gzip scalar_text)
      else if key = u ''raw/list.gz'' then Inr (example_gzip list_text)
      else if key = u ''other/my file.gz'' then Inr (example_gzip mixed_text)
      else if key = u ''raw/plain.txt'' then Inr (map of_nat mixed_text)
      else if key = u ''raw/latin1.gz'' then Inr [0x1F, 0x8B, 0xFF]
      else Inl (ClientError ''NoSuchKey''))"

definition example_env :: env where
  "example_env =
     \<lparr>unquote_plus = example_unquote_plus,
      s3_get_object = example_get_object,
      s3_put_object = (\<lambda>calls bucket key body content_type. None),
      gzip_read = example_gzip_read,
      decode_utf8 = example_decode_utf8,
      encode_utf8 = example_encode_utf8,
      json_loads = example_json_loads,
      json_dumps = example_json_dumps,
      datetime_now = example_now\<rparr>"

text \<open>The same environment with a storage service that refuses every write.\<close>

definition read_only_env :: env where
  "read_only_env =
     example_env\<lparr>s3_put_object :=
       (\<lambda>calls bucket key body content_type. Some (ClientError ''AccessDenied''))\<rparr>"

text \<open>The same environment with an encoder that fails.\<close>

definition no_encoder_env :: env where
  "no_encoder_env = example_env\<lparr>encode_utf8 := (\<lambda>s. Inl UnicodeEncodeError)\<rparr>"

definition notification_for :: "string \<Rightarrow> s3_notification" where
  "notification_for key = \<lparr>bucket_name = u ''clicks'', object_key = u key\<rparr>"

definition fresh_world :: world where
  "fresh_world = \<lparr>s3_calls = [], clock_reads = 0\<rparr>"

section \<open>Properties\<close>

subsection \<open>Strings and destination keys\<close>

lemma startswith_prefix: "startswith s p \<longleftrightarrow> prefix p s"
  by (auto simp: startswith_def prefix_def) (metis append_take_drop_id)

lemma endswith_suffix: "endswith s x \<longleftrightarrow> suffix x s"
proof
  assume "endswith s x"
  then have "s = take (length s - length x) s @ x"
    by (metis append_take_drop_id endswith_def)
  then show "suffix x s" by (metis suffixI)
next
  assume "suffix x s"
  then obtain p where "s = p @ x" by (auto simp: suffix_def)
  then show "endswith s x" by (simp add: endswith_def)
qed

lemma gz_suffix_processed:
  "suffix (u ''.gz'') (u ''processed/'' @ k) \<longleftrightarrow> suffix (u ''.gz'') k"
  by (auto simp: suffix_append u_def append_eq_Cons_conv Cons_eq_append_conv suffix_Cons)

lemma take_stem: "take (length (p @ stem @ u ''.gz'') - 3) (p @ stem @ u ''.gz'') = p @ stem"
  by (simp add: u_def)

lemma dest_key_raw_gz:
  "dest_key (u ''raw/'' @ stem @ u ''.gz'') = u ''processed/'' @ stem @ u ''json''"
proof -
  have 1: "startswith (u ''raw/'' @ stem @ u ''.gz'') (u ''raw/'')"
    by (simp add: startswith_prefix)
  have 2: "drop (length (u ''raw/'')) (u ''raw/'' @ stem @ u ''.gz'') = stem @ u ''.gz''"
    by simp
  have 3: "endswith (u ''processed/'' @ stem @ u ''.gz'') (u ''.gz'')"
    by (simp add: endswith_suffix suffix_def)
  show ?thesis
    unfolding dest_key_def Let_def using take_stem[of "u ''processed/''" stem]
    by (simp only: 1 2 3 if_True) simp
qed

lemma dest_key_raw_other:
  "\<not> suffix (u ''.gz'') rest \<Longrightarrow> dest_key (u ''raw/'' @ rest) = u ''processed/'' @ rest"
proof -
  assume a: "\<not> suffix (u ''.gz'') rest"
  have 1: "startswith (u ''raw/'' @ rest) (u ''raw/'')"
    by (simp add: startswith_prefix)
  have 2: "drop (length (u ''raw/'')) (u ''raw/'' @ rest) = rest"
    by simp
  have 3: "\<not> endswith (u ''processed/'' @ rest) (u ''.gz'')"
    using a by (simp add: endswith_suffix gz_suffix_processed)
  show ?thesis
    unfolding dest_key_def Let_def by (simp only: 1 2 3 if_True if_False)
qed

lemma dest_key_other_gz:
  "\<not> prefix (u ''raw/'') (stem @ u ''.gz'') \<Longrightarrow>
   dest_key (stem @ u ''.gz'') = u ''processed/'' @ stem @ u ''json''"
proof -
  assume a: "\<not> prefix (u ''raw/'') (stem @ u ''.gz'')"
  have 1: "\<not> startswith (stem @ u ''.gz'') (u ''raw/'')"
    using a by (simp add: startswith_prefix)
  have 3: "endswith (u ''processed/'' @ stem @ u ''.gz'') (u ''.gz'')"
    by (simp add: endswith_suffix suffix_def)
  show ?thesis
    unfolding dest_key_def Let_def using take_stem[of "u ''processed/''" stem]
    by (simp only: 1 3 if_True if_False) simp
qed

lemma dest_key_other:
  "\<not> prefix (u ''raw/'') k \<Longrightarrow> \<not> suffix (u ''.gz'') k \<Longrightarrow> dest_key k = u ''processed/'' @ k"
proof -
  assume a: "\<not> prefix (u ''raw/'') k" and b: "\<not> suffix (u ''.gz'') k"
  have 1: "\<not> startswith k (u ''raw/'')"
    using a by (simp add: startswith_prefix)
  have 3: "\<not> endswith (u ''processed/'' @ k) (u ''.gz'')"
    using b by (simp add: endswith_suffix gz_suffix_processed)
  show ?thesis
    unfolding dest_key_def Let_def by (simp only: 1 3 if_True if_False)
qed

subsection \<open>Dicts\<close>

lemma dict_pop_keys: "k \<notin> fst ` set (dict_pop d k)"
  by (auto simp: dict_pop_def)

lemma dict_setitem_keys: "fst ` set (dict_setitem d k v) = insert k (fst ` set d)"
  by (induction d) auto

lemma map_of_dict_setitem: "map_of (dict_setitem d k v) = (map_of d)(k \<mapsto> v)"
  by (induction d) (auto simp: fun_eq_iff)

lemma map_of_dict_pop: "map_of (dict_pop d k) = (map_of d)(k := None)"
  unfolding dict_pop_def by (induction d) (auto simp: fun_eq_iff)

lemma dict_pop_absent: "k \<notin> fst ` set d \<Longrightarrow> dict_pop d k = d"
  unfolding dict_pop_def by (induction d) auto

lemma distinct_dict_pop: "distinct (map fst d) \<Longrightarrow> distinct (map fst (dict_pop d k))"
  unfolding dict_pop_def by (induction d) auto

lemma distinct_dict_setitem: "distinct (map fst d) \<Longrightarrow> distinct (map fst (dict_setitem d k v))"
  by (induction d) (auto simp: dict_setitem_keys)

lemma user_id_neq_processed_ts: "u ''user_id'' \<noteq> u ''processed_ts''"
  by (simp add: u_def)

lemma transformed_no_user_id: "u ''user_id'' \<notin> fst ` set (transformed E d n)"
  using dict_pop_keys[of "u ''user_id''" d]
  by (simp add: transformed_def dict_setitem_keys user_id_neq_processed_ts)

lemma transformed_processed_ts:
  "map_of (transformed E d n) (u ''processed_ts'') = Some (JStr (isoformat (datetime_now E n)))"
  by (simp add: transformed_def map_of_dict_setitem)

lemma transformed_other_keys:
  "k \<noteq> u ''user_id'' \<Longrightarrow> k \<noteq> u ''processed_ts'' \<Longrightarrow> map_of (transformed E d n) k = map_of d k"
  by (simp add: transformed_def map_of_dict_setitem map_of_dict_pop)

lemma transformed_distinct: "distinct (map fst d) \<Longrightarrow> distinct (map fst (transformed E d n))"
  by (simp add: transformed_def distinct_dict_setitem distinct_dict_pop)

subsection \<open>The loop over the lines\<close>

lemma py_pop_not_dict:
  "(\<forall>d. v \<noteq> JDict d) \<Longrightarrow> py_pop v k = Inl (case v of JList xs \<Rightarrow> TypeError | other \<Rightarrow> AttributeError)"
  by (cases v) simp_all

lemma classify_Blank: "classify E l = Blank \<longleftrightarrow> strip l = []"
  by (auto simp: classify_def split: sum.splits pyobj.splits)

lemma classify_Malformed:
  "classify E l = Malformed \<longleftrightarrow> strip l \<noteq> [] \<and> json_loads E (strip l) = Inl JSONDecodeError"
  by (auto simp: classify_def split: sum.splits pyobj.splits)

lemma classify_ObjectLine:
  "classify E l = ObjectLine d \<longleftrightarrow> strip l \<noteq> [] \<and> json_loads E (strip l) = Inr (JDict d)"
  by (auto simp: classify_def split: sum.splits pyobj.splits)

lemma classify_OtherJson:
  "classify E l = OtherJson v \<longleftrightarrow>
     strip l \<noteq> [] \<and> json_loads E (strip l) = Inr v \<and> (\<forall>d. v \<noteq> JDict d)"
  by (auto simp: classify_def split: sum.splits pyobj.splits)

lemma classify_ParserCrash:
  "classify E l = ParserCrash e \<longleftrightarrow>
     strip l \<noteq> [] \<and> json_loads E (strip l) = Inl e \<and> e \<noteq> JSONDecodeError"
  by (auto simp: classify_def split: sum.splits pyobj.splits)

lemma step_skipped:
  "skipped E l \<Longrightarrow> process_lines E (l # rest) acc n = process_lines E rest acc n"
  by (auto simp: skipped_def classify_Blank classify_Malformed split: line_kind.splits)

lemma step_object:
  "classify E l = ObjectLine d \<Longrightarrow>
   process_lines E (l # rest) acc n = process_lines E rest (acc @ [output_line E d n]) (Suc n)"
  by (simp add: classify_ObjectLine output_line_def transformed_def)

lemma step_other_json:
  "classify E l = OtherJson v \<Longrightarrow>
   process_lines E (l # rest) acc n =
     (Inl (case v of JList xs \<Rightarrow> TypeError | other \<Rightarrow> AttributeError), n)"
  by (simp add: classify_OtherJson py_pop_not_dict)

lemma step_parser_crash:
  "classify E l = ParserCrash e \<Longrightarrow> process_lines E (l # rest) acc n = (Inl e, n)"
  by (simp add: classify_ParserCrash)

lemma object_lines_Cons:
  "object_lines E (l # ls) =
     (case classify E l of ObjectLine d \<Rightarrow> d # object_lines E ls | other \<Rightarrow> object_lines E ls)"
  by (simp add: object_lines_def object_of_def map_filter_simps split: line_kind.splits)

lemma object_lines_Nil: "object_lines E [] = []"
  by (simp add: object_lines_def map_filter_simps)

lemma expected_Nil: "expected E [] n = []"
  by (simp add: expected_def object_lines_Nil)

lemma expected_skipped: "skipped E l \<Longrightarrow> expected E (l # ls) n = expected E ls n"
  by (auto simp: expected_def object_lines_Cons skipped_def split: line_kind.splits)

lemma expected_object:
  "classify E l = ObjectLine d \<Longrightarrow> expected E (l # ls) n = output_line E d n # expected E ls (Suc n)"
proof -
  assume a: "classify E l = ObjectLine d"
  have "[n ..< n + Suc k] = n # [Suc n ..< Suc n + k]" for k
    by (simp add: upt_rec[of n])
  with a show ?thesis
    by (simp add: expected_def object_lines_Cons)
qed

lemma tolerated_cases:
  "tolerated E l \<longleftrightarrow> skipped E l \<or> (\<exists>d. classify E l = ObjectLine d)"
  by (auto simp: tolerated_def skipped_def split: line_kind.splits)

lemma process_lines_tolerated:
  "\<forall>l \<in> set ls. tolerated E l \<Longrightarrow>
   process_lines E ls acc n = (Inr (acc @ expected E ls n), n + length (object_lines E ls))"
proof (induction ls arbitrary: acc n)
  case Nil
  then show ?case by (simp add: expected_Nil object_lines_Nil)
next
  case (Cons l ls)
  then have tl: "\<forall>x \<in> set ls. tolerated E x" and hd: "tolerated E l" by simp_all
  from hd consider (skip) "skipped E l" | (obj) d where "classify E l = ObjectLine d"
    by (auto simp: tolerated_cases)
  then show ?case
  proof cases
    case skip
    then have "object_lines E (l # ls) = object_lines E ls"
      by (auto simp: object_lines_Cons skipped_def split: line_kind.splits)
    with skip Cons.IH[OF tl] show ?thesis
      by (simp only: step_skipped expected_skipped)
  next
    case obj
    then have "object_lines E (l # ls) = d # object_lines E ls"
      by (simp add: object_lines_Cons)
    with obj Cons.IH[OF tl, of "acc @ [output_line E d n]" "Suc n"] show ?thesis
      by (simp only: step_object expected_object) simp
  qed
qed

lemma process_lines_success_tolerated:
  "process_lines E ls acc n = (Inr out, m) \<Longrightarrow> \<forall>l \<in> set ls. tolerated E l"
proof (induction ls arbitrary: acc n)
  case Nil
  then show ?case by simp
next
  case (Cons l ls)
  show ?case
  proof (cases "classify E l")
    case Blank
    then have s: "skipped E l" by (simp add: skipped_def)
    with Cons.prems have "process_lines E ls acc n = (Inr out, m)" by (simp only: step_skipped)
    with Cons.IH s show ?thesis by (auto simp: tolerated_cases)
  next
    case Malformed
    then have s: "skipped E l" by (simp add: skipped_def)
    with Cons.prems have "process_lines E ls acc n = (Inr out, m)" by (simp only: step_skipped)
    with Cons.IH s show ?thesis by (auto simp: tolerated_cases)
  next
    case (ObjectLine d)
    with Cons.prems have "process_lines E ls (acc @ [output_line E d n]) (Suc n) = (Inr out, m)"
      by (simp only: step_object)
    with Cons.IH ObjectLine show ?thesis by (auto simp: tolerated_cases)
  next
    case (OtherJson v)
    with Cons.prems show ?thesis by (simp only: step_other_json) simp
  next
    case (ParserCrash e)
    with Cons.prems show ?thesis by (simp only: step_parser_crash) simp
  qed
qed

lemma process_lines_success_form:
  assumes "process_lines E ls acc n = (Inr out, m)"
  shows "out = acc @ expected E ls n \<and> m = n + length (object_lines E ls)"
  using process_lines_tolerated[OF process_lines_success_tolerated[OF assms], of acc n] assms
  by simp

lemma expected_length: "length (expected E ls n) = length (object_lines E ls)"
  by (simp add: expected_def)

lemma expected_nth:
  "i < length (object_lines E ls) \<Longrightarrow>
   expected E ls n ! i = output_line E (object_lines E ls ! i) (n + i)"
  by (simp add: expected_def)

lemma object_lines_length:
  "length (object_lines E ls) = length (filter (\<lambda>l. \<not> skipped E l) ls)" if "\<forall>l\<in>set ls. tolerated E l"
  using that
  by (induction ls) (auto simp: object_lines_Nil object_lines_Cons tolerated_def skipped_def split: line_kind.splits)

lemma object_lines_skipped: "\<forall>l\<in>set ls. skipped E l \<Longrightarrow> object_lines E ls = []"
  by (induction ls) (auto simp: object_lines_Nil object_lines_Cons skipped_def split: line_kind.splits)

lemma skipped_tolerated: "skipped E l \<Longrightarrow> tolerated E l"
  by (simp add: tolerated_cases)

subsection \<open>Timestamps\<close>

lemma decimal_digits: "list_all is_digit (decimal n)"
proof (induction n rule: decimal.induct)
  case (1 n)
  show ?case
  proof (cases "n < 10")
    case True
    then show ?thesis by (simp add: decimal.simps[of n] is_digit_def)
  next
    case False
    have "n mod 10 < 10" by simp
    then have "is_digit (48 + n mod 10)" unfolding is_digit_def by linarith
    with False 1 show ?thesis by (simp add: decimal.simps[of n])
  qed
qed

lemma decimal_length: "0 < w \<Longrightarrow> n < 10 ^ w \<Longrightarrow> length (decimal n) \<le> w"
proof (induction n arbitrary: w rule: decimal.induct)
  case (1 n)
  show ?case
  proof (cases "n < 10")
    case True
    with 1 show ?thesis by (simp add: decimal.simps[of n])
  next
    case False
    with 1(3) have "1 < w" by (cases w; cases "w - 1") auto
    then obtain v where v: "w = Suc v" "0 < v" by (cases w) auto
    with 1(3) have "n div 10 < 10 ^ v"
      by (simp add: less_mult_imp_div_less mult.commute)
    with 1(1)[OF False v(2)] have "length (decimal (n div 10)) \<le> v" by simp
    with False v show ?thesis by (simp add: decimal.simps[of n])
  qed
qed

lemma digits_value_snoc: "digits_value (xs @ [c]) = 10 * digits_value xs + (c - 48)"
  by (simp add: digits_value_def)

lemma decimal_value: "digits_value (decimal n) = n"
proof (induction n rule: decimal.induct)
  case (1 n)
  show ?case
  proof (cases "n < 10")
    case True
    then show ?thesis by (simp add: decimal.simps[of n] digits_value_def)
  next
    case False
    with 1 show ?thesis by (simp add: decimal.simps[of n] digits_value_snoc)
  qed
qed

lemma digits_value_zeros: "digits_value (replicate k 48 @ xs) = digits_value xs"
proof -
  have "foldl (\<lambda>a c. 10 * a + (c - 48)) 0 (replicate k (48::nat)) = 0"
    by (induction k) simp_all
  then show ?thesis by (simp add: digits_value_def)
qed

lemma zero_pad_value: "digits_value (zero_pad w n) = n"
  by (simp add: zero_pad_def digits_value_zeros decimal_value)

lemma zero_pad_length: "0 < w \<Longrightarrow> n < 10 ^ w \<Longrightarrow> length (zero_pad w n) = w"
  using decimal_length[of w n] by (simp add: zero_pad_def)

lemma zero_pad_digits: "0 < w \<Longrightarrow> n < 10 ^ w \<Longrightarrow> digits w (zero_pad w n)"
proof -
  assume a: "0 < w" "n < 10 ^ w"
  have "list_all is_digit (replicate k 48)" for k
    by (induction k) (simp_all add: is_digit_def)
  then have "list_all is_digit (zero_pad w n)"
    using decimal_digits[of n] by (simp add: zero_pad_def)
  with a show ?thesis by (simp add: digits_def zero_pad_length)
qed

lemma zero_pad_in_range:
  "lo \<le> n \<Longrightarrow> n \<le> hi \<Longrightarrow> hi < 100 \<Longrightarrow> in_range lo hi (zero_pad 2 n)"
  using zero_pad_digits[of 2 n] by (simp add: in_range_def zero_pad_value)

lemma takeWhile_digits_then:
  "list_all is_digit xs \<Longrightarrow> \<not> is_digit c \<Longrightarrow> takeWhile is_digit (xs @ c # ys) = xs"
  by (induction xs) simp_all

lemma dropWhile_digits_then:
  "list_all is_digit xs \<Longrightarrow> \<not> is_digit c \<Longrightarrow> dropWhile is_digit (xs @ c # ys) = c # ys"
  by (induction xs) simp_all

lemma iso_shape:
  assumes y: "digits 4 yy" and mo: "in_range 1 12 mo" and d: "in_range 1 31 dd"
    and h: "in_range 0 23 hh" and mi: "in_range 0 59 mi" and s: "in_range 0 59 ss"
    and f: "fr = [] \<or> (\<exists>ds. ds \<noteq> [] \<and> list_all is_digit ds \<and> fr = u ''.'' @ ds)"
  shows "is_iso8601_utc (yy @ u ''-'' @ mo @ u ''-'' @ dd @ u ''T'' @ hh @ u '':'' @ mi @ u '':'' @ ss @ fr @ u ''+00:00'')"
proof -
  have len: "length yy = 4" "length mo = 2" "length dd = 2" "length hh = 2" "length mi = 2"
    "length ss = 2"
    using assms by (simp_all add: digits_def in_range_def)
  have one: "length (u ''-'') = 1" "length (u ''T'') = 1" "length (u '':'') = 1"
    by (simp_all add: u_def)
  from f show ?thesis
  proof
    assume "fr = []"
    then show ?thesis
      using assms(1-6) len one unfolding is_iso8601_utc_def
      by (simp add: is_utc_zone_def) (simp add: u_def)
  next
    assume "\<exists>ds. ds \<noteq> [] \<and> list_all is_digit ds \<and> fr = u ''.'' @ ds"
    then obtain ds where ds: "ds \<noteq> []" "list_all is_digit ds" "fr = u ''.'' @ ds" by blast
    have plus: "u ''+00:00'' = 43 # u ''00:00''" "\<not> is_digit 43"
      by (simp_all add: u_def is_digit_def)
    have tw: "takeWhile is_digit (ds @ u ''+00:00'') = ds"
      "dropWhile is_digit (ds @ u ''+00:00'') = u ''+00:00''"
      using takeWhile_digits_then[OF ds(2) plus(2)] dropWhile_digits_then[OF ds(2) plus(2)]
      by (simp_all add: plus(1))
    have dot: "length (u ''.'') = 1" by (simp add: u_def)
    show ?thesis
      using assms(1-6) len one ds tw dot unfolding is_iso8601_utc_def
      by (simp add: is_utc_zone_def)
  qed
qed

lemma isoformat_valid: "valid_datetime dt \<Longrightarrow> is_iso8601_utc (isoformat dt)"
proof -
  assume v: "valid_datetime dt"
  have y: "digits 4 (zero_pad 4 (year dt))"
    using v by (intro zero_pad_digits) (simp_all add: valid_datetime_def)
  have mo: "in_range 1 12 (zero_pad 2 (month dt))"
    using v by (intro zero_pad_in_range) (simp_all add: valid_datetime_def)
  have d: "in_range 1 31 (zero_pad 2 (day dt))"
    using v by (intro zero_pad_in_range) (simp_all add: valid_datetime_def)
  have h: "in_range 0 23 (zero_pad 2 (hour dt))"
    using v by (intro zero_pad_in_range) (simp_all add: valid_datetime_def)
  have mi: "in_range 0 59 (zero_pad 2 (minute dt))"
    using v by (intro zero_pad_in_range) (simp_all add: valid_datetime_def)
  have s: "in_range 0 59 (zero_pad 2 (second dt))"
    using v by (intro zero_pad_in_range) (simp_all add: valid_datetime_def)
  have us: "digits 6 (zero_pad 6 (microsecond dt))"
    using v by (intro zero_pad_digits) (simp_all add: valid_datetime_def)
  then have usne: "zero_pad 6 (microsecond dt) \<noteq> []" "list_all is_digit (zero_pad 6 (microsecond dt))"
    by (auto simp: digits_def)
  have f: "(if microsecond dt \<noteq> 0 then u ''.'' @ zero_pad 6 (microsecond dt) else []) = [] \<or>
     (\<exists>ds. ds \<noteq> [] \<and> list_all is_digit ds \<and>
        (if microsecond dt \<noteq> 0 then u ''.'' @ zero_pad 6 (microsecond dt) else []) = u ''.'' @ ds)"
    using usne by auto
  show ?thesis
    unfolding isoformat_def using iso_shape[OF y mo d h mi s f] by simp
qed

subsection \<open>One notification, and the batch\<close>

lemma process_record_read_fails:
  "s3_get_object E (s3_calls w) (bucket_name r) (unquote_plus E (object_key r)) = Inl e \<Longrightarrow>
   process_record E w r = (Some e, after_read E w r)"
  by (simp add: process_record_def after_read_def read_of_def Let_def)

lemma process_record_gzip_fails:
  "s3_get_object E (s3_calls w) (bucket_name r) (unquote_plus E (object_key r)) = Inr raw_body \<Longrightarrow>
   gzip_read E raw_body = Inl e \<Longrightarrow>
   process_record E w r = (Some e, after_read E w r)"
  by (simp add: process_record_def after_read_def read_of_def Let_def)

lemma process_record_decode_fails:
  "s3_get_object E (s3_calls w) (bucket_name r) (unquote_plus E (object_key r)) = Inr raw_body \<Longrightarrow>
   gzip_read E raw_body = Inr decompressed \<Longrightarrow>
   decode_utf8 E decompressed = Inl e \<Longrightarrow>
   process_record E w r = (Some e, after_read E w r)"
  by (simp add: process_record_def after_read_def read_of_def Let_def)

lemma file_content_Inl:
  "file_content E w r = Inl e \<longleftrightarrow>
     s3_get_object E (s3_calls w) (bucket_name r) (unquote_plus E (object_key r)) = Inl e \<or>
     (\<exists>raw_body. s3_get_object E (s3_calls w) (bucket_name r) (unquote_plus E (object_key r)) = Inr raw_body \<and>
        (gzip_read E raw_body = Inl e \<or>
         (\<exists>decompressed. gzip_read E raw_body = Inr decompressed \<and> decode_utf8 E decompressed = Inl e)))"
  unfolding file_content_def
  by (cases "s3_get_object E (s3_calls w) (bucket_name r) (unquote_plus E (object_key r))";
      cases "gzip_read E (projr (s3_get_object E (s3_calls w) (bucket_name r) (unquote_plus E (object_key r))))")
     simp_all

lemma file_content_Inr:
  "file_content E w r = Inr content \<longleftrightarrow>
     (\<exists>raw_body decompressed.
        s3_get_object E (s3_calls w) (bucket_name r) (unquote_plus E (object_key r)) = Inr raw_body \<and>
        gzip_read E raw_body = Inr decompressed \<and> decode_utf8 E decompressed = Inr content)"
  unfolding file_content_def
  by (cases "s3_get_object E (s3_calls w) (bucket_name r) (unquote_plus E (object_key r))";
      cases "gzip_read E (projr (s3_get_object E (s3_calls w) (bucket_name r) (unquote_plus E (object_key r))))")
     simp_all

lemma process_record_no_content:
  "file_content E w r = Inl e \<Longrightarrow> process_record E w r = (Some e, after_read E w r)"
  unfolding file_content_Inl
  using process_record_read_fails process_record_gzip_fails process_record_decode_fails
  by blast

lemma process_record_lines_fail:
  "file_content E w r = Inr content \<Longrightarrow>
   process_lines E (splitlines content) [] (clock_reads w) = (Inl e, n) \<Longrightarrow>
   process_record E w r = (Some e, (after_read E w r)\<lparr>clock_reads := n\<rparr>)"
  unfolding file_content_Inr
  by (auto simp: process_record_def after_read_def read_of_def Let_def)

lemma process_record_nothing:
  "file_content E w r = Inr content \<Longrightarrow>
   process_lines E (splitlines content) [] (clock_reads w) = (Inr [], n) \<Longrightarrow>
   process_record E w r = (None, (after_read E w r)\<lparr>clock_reads := n\<rparr>)"
  unfolding file_content_Inr
  by (auto simp: process_record_def after_read_def read_of_def Let_def)

lemma process_record_encode_fails:
  "file_content E w r = Inr content \<Longrightarrow>
   process_lines E (splitlines content) [] (clock_reads w) = (Inr out, n) \<Longrightarrow> out \<noteq> [] \<Longrightarrow>
   encode_utf8 E (join (u [CHR 0x0A]) out) = Inl e \<Longrightarrow>
   process_record E w r = (Some e, (after_read E w r)\<lparr>clock_reads := n\<rparr>)"
  unfolding file_content_Inr
  by (auto simp: process_record_def after_read_def read_of_def Let_def)

lemma process_record_writes:
  "file_content E w r = Inr content \<Longrightarrow>
   process_lines E (splitlines content) [] (clock_reads w) = (Inr out, n) \<Longrightarrow> out \<noteq> [] \<Longrightarrow>
   encode_utf8 E (join (u [CHR 0x0A]) out) = Inr body \<Longrightarrow>
   process_record E w r =
     (s3_put_object E (s3_calls w @ [read_of E r]) (bucket_name r)
        (dest_key (unquote_plus E (object_key r))) body (u ''application/json''),
      \<lparr>s3_calls = s3_calls w @ [read_of E r,
          PutObject (bucket_name r) (dest_key (unquote_plus E (object_key r))) body
            (u ''application/json'')],
       clock_reads = n\<rparr>)"
  unfolding file_content_Inr
  by (auto simp: process_record_def after_read_def read_of_def Let_def)

lemma process_record_calls:
  "\<exists>puts. s3_calls (snd (process_record E w r)) = s3_calls w @ read_of E r # puts \<and>
     (puts = [] \<or> (\<exists>body. puts = [PutObject (bucket_name r)
         (dest_key (unquote_plus E (object_key r))) body (u ''application/json'')]))"
proof (cases "file_content E w r")
  case (Inl e)
  then show ?thesis by (simp add: process_record_no_content after_read_def)
next
  case (Inr content)
  obtain res n where pl: "process_lines E (splitlines content) [] (clock_reads w) = (res, n)"
    by (cases "process_lines E (splitlines content) [] (clock_reads w)")
  show ?thesis
  proof (cases res)
    case (Inl e)
    with Inr pl show ?thesis by (simp add: process_record_lines_fail after_read_def)
  next
    case out: (Inr out)
    show ?thesis
    proof (cases "out = []")
      case True
      with Inr pl out show ?thesis by (simp add: process_record_nothing after_read_def)
    next
      case False
      show ?thesis
      proof (cases "encode_utf8 E (join (u [CHR 0x0A]) out)")
        case (Inl e)
        with Inr pl out False show ?thesis
          by (simp add: process_record_encode_fails after_read_def)
      next
        case body: (Inr body)
        with Inr pl out False show ?thesis
          by (simp add: process_record_writes)
      qed
    qed
  qed
qed

lemma process_records_append:
  "process_records E w (xs @ ys) =
     (case process_records E w xs of
        (Some e, w') \<Rightarrow> (Some e, w')
      | (None, w') \<Rightarrow> process_records E w' ys)"
  by (induction xs arbitrary: w) (auto split: prod.splits option.splits)

lemma process_record_trace: 
  assumes pr: "process_record E w r = (res, w')"
  shows "\<exists>puts. s3_calls w' = s3_calls w @ read_of E r # puts \<and> filter is_read puts = []"
proof -
  from process_record_calls[of E w r] obtain puts where
    p: "s3_calls (snd (process_record E w r)) = s3_calls w @ read_of E r # puts"
       "puts = [] \<or> (\<exists>body. puts = [PutObject (bucket_name r)
         (dest_key (unquote_plus E (object_key r))) body (u ''application/json'')])"
    by blast
  from p(2) have "filter is_read puts = []" by (elim disjE exE) simp_all
  with p(1) pr show ?thesis by simp
qed

lemma process_records_calls:
  "\<exists>new. s3_calls (snd (process_records E w rs)) = s3_calls w @ new \<and>
     prefix (filter is_read new) (map (read_of E) rs) \<and>
     (fst (process_records E w rs) = None \<longrightarrow> filter is_read new = map (read_of E) rs)"
proof (induction rs arbitrary: w)
  case Nil
  show ?case by (intro exI[of _ "[]"]) simp
next
  case (Cons r rs)
  obtain res w' where pr: "process_record E w r = (res, w')" by (cases "process_record E w r")
  from process_record_trace[OF pr] obtain puts where
    puts: "s3_calls w' = s3_calls w @ read_of E r # puts" "filter is_read puts = []"
    by blast
  have rd: "is_read (read_of E r)" by (simp add: read_of_def)
  show ?case
  proof (cases res)
    case (Some e)
    then have eq: "process_records E w (r # rs) = (Some e, w')" using pr by simp
    have "filter is_read (read_of E r # puts) = [read_of E r]" using puts(2) rd by simp
    then show ?thesis unfolding eq using puts(1)
      by (intro exI[of _ "read_of E r # puts"]) simp
  next
    case None
    then have eq: "process_records E w (r # rs) = process_records E w' rs" using pr by simp
    from Cons.IH[of w'] obtain new where
      "s3_calls (snd (process_records E w' rs)) = s3_calls w' @ new \<and>
       prefix (filter is_read new) (map (read_of E) rs) \<and>
       (fst (process_records E w' rs) = None \<longrightarrow> filter is_read new = map (read_of E) rs)" ..
    then have new: "s3_calls (snd (process_records E w' rs)) = s3_calls w' @ new"
        "prefix (filter is_read new) (map (read_of E) rs)"
        "fst (process_records E w' rs) = None \<longrightarrow> filter is_read new = map (read_of E) rs"
      by simp_all
    have f: "filter is_read (read_of E r # puts @ new) = read_of E r # filter is_read new"
      using puts(2) rd by simp
    have 1: "s3_calls (snd (process_records E w' rs)) = s3_calls w @ (read_of E r # puts @ new)"
      using new(1) puts(1) by simp
    have 2: "prefix (filter is_read (read_of E r # puts @ new)) (map (read_of E) (r # rs))"
      unfolding f using new(2) by simp
    have 3: "fst (process_records E w' rs) = None \<longrightarrow>
         filter is_read (read_of E r # puts @ new) = map (read_of E) (r # rs)"
      unfolding f using new(3) by simp
    show ?thesis unfolding eq
      by (rule exI[of _ "read_of E r # puts @ new"], intro conjI, rule 1, rule 2, rule 3)
  qed
qed

lemma process_lines_append:
  "process_lines E (xs @ ys) acc n =
     (case process_lines E xs acc n of
        (Inl e, m) \<Rightarrow> (Inl e, m)
      | (Inr acc', m) \<Rightarrow> process_lines E ys acc' m)"
proof (induction xs arbitrary: acc n)
  case Nil
  then show ?case by simp
next
  case (Cons l xs)
  show ?case
  proof (cases "classify E l")
    case Blank
    then have "skipped E l" by (simp add: skipped_def)
    then show ?thesis using Cons.IH[of acc n] by (simp only: append_Cons step_skipped)
  next
    case Malformed
    then have "skipped E l" by (simp add: skipped_def)
    then show ?thesis using Cons.IH[of acc n] by (simp only: append_Cons step_skipped)
  next
    case (ObjectLine d)
    then show ?thesis using Cons.IH[of "acc @ [output_line E d n]" "Suc n"]
      by (simp only: append_Cons step_object)
  next
    case (OtherJson v)
    then show ?thesis by (simp only: append_Cons step_other_json) simp
  next
    case (ParserCrash e)
    then show ?thesis by (simp only: append_Cons step_parser_crash) simp
  qed
qed

lemma process_lines_env:
  "json_loads E' = json_loads E \<Longrightarrow> json_dumps E' = json_dumps E \<Longrightarrow>
   datetime_now E' = datetime_now E \<Longrightarrow>
   process_lines E' ls acc n = process_lines E ls acc n"
  by (induction ls arbitrary: acc n) (simp_all add: Let_def split: sum.splits)

lemma file_content_env:
  "unquote_plus E' = unquote_plus E \<Longrightarrow> s3_get_object E' = s3_get_object E \<Longrightarrow>
   gzip_read E' = gzip_read E \<Longrightarrow> decode_utf8 E' = decode_utf8 E \<Longrightarrow>
   file_content E' w r = file_content E w r"
  by (simp add: file_content_def cong: sum.case_cong)

lemma process_record_all_skipped:
  assumes "file_content E w r = Inr content"
    and "\<forall>l\<in>set (splitlines content). skipped E l"
  shows "process_record E w r = (None, after_read E w r)"
proof -
  from assms(2) have tol: "\<forall>l\<in>set (splitlines content). tolerated E l"
    by (simp add: skipped_tolerated)
  have none: "object_lines E (splitlines content) = []"
    using assms(2) by (rule object_lines_skipped)
  have "process_lines E (splitlines content) [] (clock_reads w) = (Inr [], clock_reads w)"
    using process_lines_tolerated[OF tol, of "[]" "clock_reads w"]
    by (simp add: none expected_def)
  from process_record_nothing[OF assms(1) this] show ?thesis
    by (simp add: after_read_def)
qed

lemma process_record_fails:
  assumes "file_content E w r = Inl e \<or>
     (\<exists>content out n. file_content E w r = Inr content \<and>
        process_lines E (splitlines content) [] (clock_reads w) = (Inr out, n) \<and> out \<noteq> [] \<and>
        (encode_utf8 E (join (u [CHR 0x0A]) out) = Inl e \<or>
         (\<exists>body. encode_utf8 E (join (u [CHR 0x0A]) out) = Inr body \<and>
            s3_put_object E (s3_calls w @ [read_of E r]) (bucket_name r)
              (dest_key (unquote_plus E (object_key r))) body (u ''application/json'') = Some e)))"
  shows "fst (process_record E w r) = Some e"
  using assms
proof (elim disjE exE conjE)
  assume "file_content E w r = Inl e"
  then show ?thesis by (simp add: process_record_no_content)
next
  fix content out n
  assume "file_content E w r = Inr content"
    "process_lines E (splitlines content) [] (clock_reads w) = (Inr out, n)" "out \<noteq> []"
    "encode_utf8 E (join (u [CHR 0x0A]) out) = Inl e"
  then show ?thesis by (simp add: process_record_encode_fails)
next
  fix content out n body
  assume "file_content E w r = Inr content"
    "process_lines E (splitlines content) [] (clock_reads w) = (Inr out, n)" "out \<noteq> []"
    "encode_utf8 E (join (u [CHR 0x0A]) out) = Inr body"
    "s3_put_object E (s3_calls w @ [read_of E r]) (bucket_name r)
       (dest_key (unquote_plus E (object_key r))) body (u ''application/json'') = Some e"
  then show ?thesis by (simp add: process_record_writes)
qed

lemma written_body:
  assumes "PutObject b k body ct \<in>
     set (drop (length (s3_calls w)) (s3_calls (snd (process_record E w r))))"
  shows "\<exists>content out m. file_content E w r = Inr content \<and>
     process_lines E (splitlines content) [] (clock_reads w) = (Inr out, m) \<and> out \<noteq> [] \<and>
     encode_utf8 E (join (u [CHR 0x0A]) out) = Inr body"
proof (cases "file_content E w r")
  case (Inl e)
  with assms show ?thesis by (simp add: process_record_no_content after_read_def read_of_def)
next
  case (Inr content)
  obtain res n where pl: "process_lines E (splitlines content) [] (clock_reads w) = (res, n)"
    by (cases "process_lines E (splitlines content) [] (clock_reads w)")
  show ?thesis
  proof (cases res)
    case (Inl e)
    with Inr pl assms show ?thesis
      by (simp add: process_record_lines_fail after_read_def read_of_def)
  next
    case out: (Inr out)
    show ?thesis
    proof (cases "out = []")
      case True
      with Inr pl out assms show ?thesis
        by (simp add: process_record_nothing after_read_def read_of_def)
    next
      case False
      show ?thesis
      proof (cases "encode_utf8 E (join (u [CHR 0x0A]) out)")
        case (Inl e)
        with Inr pl out False assms show ?thesis
          by (simp add: process_record_encode_fails after_read_def read_of_def)
      next
        case enc: (Inr body')
        with Inr pl out False assms have "body' = body"
          by (simp add: process_record_writes read_of_def)
        with Inr pl out False enc show ?thesis by blast
      qed
    qed
  qed
qed

lemma batch_stops_at_failure:
  assumes "process_records E w before = (None, w1)" and "fst (process_record E w1 r) = Some e"
  shows "process_records E w (before @ r # remaining) = (Some e, snd (process_record E w1 r))"
proof -
  obtain w2 where "process_record E w1 r = (Some e, w2)"
    using assms(2) by (cases "process_record E w1 r") simp
  with assms(1) show ?thesis by (simp add: process_records_append)
qed

lemma batch_reads_in_order:
  assumes "process_records E w before = (None, w1)"
  shows "filter is_read (drop (length (s3_calls w)) (s3_calls (snd (process_record E w1 r)))) =
           map (read_of E) (before @ [r])"
proof -
  from process_records_calls[of E w before] obtain new where
    "s3_calls (snd (process_records E w before)) = s3_calls w @ new \<and>
     prefix (filter is_read new) (map (read_of E) before) \<and>
     (fst (process_records E w before) = None \<longrightarrow> filter is_read new = map (read_of E) before)" ..
  with assms have new: "s3_calls w1 = s3_calls w @ new" "filter is_read new = map (read_of E) before"
    by simp_all
  obtain res w2 where pr: "process_record E w1 r = (res, w2)" by (cases "process_record E w1 r")
  from process_record_trace[OF pr] obtain puts where
    "s3_calls w2 = s3_calls w1 @ read_of E r # puts \<and> filter is_read puts = []" ..
  then have "s3_calls w2 = s3_calls w @ (new @ read_of E r # puts)" "filter is_read puts = []"
    using new(1) by simp_all
  moreover have "is_read (read_of E r)" by (simp add: read_of_def)
  ultimately show ?thesis using new(2) pr by simp
qed

lemma output_lines_of_run:
  assumes "process_lines E ls [] n = (Inr out, m)"
  shows "length out = length (object_lines E ls) \<and> m = n + length out \<and>
         (\<forall>i<length out. out ! i = output_line E (object_lines E ls ! i) (n + i))"
  using process_lines_success_form[OF assms] by (simp add: expected_length expected_nth)

subsection \<open>The example environment\<close>

lemma example_env_fields:
  "unquote_plus example_env = example_unquote_plus"
  "s3_get_object example_env = example_get_object"
  "s3_put_object example_env = (\<lambda>calls bucket key body content_type. None)"
  "gzip_read example_env = example_gzip_read"
  "decode_utf8 example_env = example_decode_utf8"
  "encode_utf8 example_env = example_encode_utf8"
  "json_loads example_env = example_json_loads"
  "json_dumps example_env = example_json_dumps"
  "datetime_now example_env = example_now"
  by (simp_all add: example_env_def)

lemma ascii_roundtrip:
  "list_all (\<lambda>c. c < 128) content \<Longrightarrow> map unat (map of_nat content :: bytes) = content"
proof (induction content)
  case Nil
  then show ?case by simp
next
  case (Cons c cs)
  then have "c < 256" by simp
  then have "unat (of_nat c :: 8 word) = c" by (simp add: unat_of_nat)
  with Cons show ?case by simp
qed

lemma ascii_bytes:
  "list_all (\<lambda>c. c < 128) content \<Longrightarrow> list_all (\<lambda>b. b < 128) (map of_nat content :: bytes)"
proof (induction content)
  case Nil
  then show ?case by simp
next
  case (Cons c cs)
  then have "c < 128" by simp
  then have "(of_nat c :: 8 word) < 128"
    by (simp add: word_less_nat_alt unat_of_nat)
  with Cons show ?case by simp
qed

lemma example_gzip_roundtrip:
  "example_gzip_read (example_gzip content) = Inr (map of_nat content)"
  by (simp add: example_gzip_read_def example_gzip_def)

lemma example_decode_ascii:
  "list_all (\<lambda>c. c < 128) content \<Longrightarrow> example_decode_utf8 (map of_nat content) = Inr content"
  using ascii_roundtrip[of content] ascii_bytes[of content]
  by (simp add: example_decode_utf8_def)

lemma example_encode_ascii:
  "list_all (\<lambda>c. c < 128) s \<Longrightarrow> example_encode_utf8 s = Inr (map of_nat s)"
  by (simp add: example_encode_utf8_def)

lemma example_keys:
  "example_unquote_plus (u ''raw/blank.gz'') = u ''raw/blank.gz''"
  "example_unquote_plus (u ''raw/mixed.gz'') = u ''raw/mixed.gz''"
  "example_unquote_plus (u ''raw/scalar.gz'') = u ''raw/scalar.gz''"
  "example_unquote_plus (u ''raw/list.gz'') = u ''raw/list.gz''"
  "example_unquote_plus (u ''raw/missing.gz'') = u ''raw/missing.gz''"
  "example_unquote_plus (u ''raw/plain.txt'') = u ''raw/plain.txt''"
  "example_unquote_plus (u ''raw/latin1.gz'') = u ''raw/latin1.gz''"
  "example_unquote_plus (u ''other/my+file.gz'') = u ''other/my file.gz''"
  "example_unquote_plus (u ''other/my%20file.gz'') = u ''other/my file.gz''"
  "example_unquote_plus (u ''raw/year%3D2025/month%3D11/day%3D26/file.gz'') =
     u ''raw/year=2025/month=11/day=26/file.gz''"
  by (simp_all add: example_unquote_plus_def hex_value_def u_def)

lemma example_texts_ascii:
  "list_all (\<lambda>c. c < 128) two_users_text" "list_all (\<lambda>c. c < 128) mixed_text"
  "list_all (\<lambda>c. c < 128) blank_text" "list_all (\<lambda>c. c < 128) scalar_text"
  "list_all (\<lambda>c. c < 128) list_text"
  by (simp_all add: two_users_text_def mixed_text_def blank_text_def scalar_text_def
        list_text_def u_def)

lemma example_lines:
  "splitlines two_users_text =
     [u ''{\"user_id\": \"u1\", \"x\": 1}'', u ''{\"user_id\": \"u2\", \"x\": 2}'']"
  "splitlines mixed_text = [u ''not json'', [], u ''{\"a\": 1}'']"
  "splitlines blank_text = [[], u ''   '', u ''not json'']"
  "splitlines scalar_text = [u ''{\"a\": 1}'', u ''5'']"
  "splitlines list_text = [u ''[1]'']"
  by (simp_all add: splitlines_def two_users_text_def mixed_text_def blank_text_def
        scalar_text_def list_text_def u_def is_linebreak_def)

lemma example_strips:
  "strip [] = []" "strip (u ''   '') = []" "strip (u ''not json'') = u ''not json''"
  "strip (u ''{\"a\": 1}'') = u ''{\"a\": 1}''" "strip (u ''5'') = u ''5''"
  "strip (u ''[1]'') = u ''[1]''"
  "strip (u ''{\"user_id\": \"u1\", \"x\": 1}'') = u ''{\"user_id\": \"u1\", \"x\": 1}''"
  "strip (u ''{\"user_id\": \"u2\", \"x\": 2}'') = u ''{\"user_id\": \"u2\", \"x\": 2}''"
  by (simp_all add: strip_def u_def isspace_def)

lemma example_loads:
  "example_json_loads (u ''not json'') = Inl JSONDecodeError"
  "example_json_loads (u ''{\"a\": 1}'') = Inr (JDict [(u ''a'', JInt 1)])"
  "example_json_loads (u ''5'') = Inr (JInt 5)"
  "example_json_loads (u ''[1]'') = Inr (JList [JInt 1])"
  "example_json_loads (u ''{\"user_id\": \"u1\", \"x\": 1}'') =
     Inr (JDict [(u ''user_id'', JStr (u ''u1'')), (u ''x'', JInt 1)])"
  "example_json_loads (u ''{\"user_id\": \"u2\", \"x\": 2}'') =
     Inr (JDict [(u ''user_id'', JStr (u ''u2'')), (u ''x'', JInt 2)])"
  by (simp_all add: example_json_loads_def u_def)

lemma example_nonempty:
  "u ''not json'' \<noteq> []" "u ''{\"a\": 1}'' \<noteq> []" "u ''5'' \<noteq> []" "u ''[1]'' \<noteq> []"
  "u ''{\"user_id\": \"u1\", \"x\": 1}'' \<noteq> []" "u ''{\"user_id\": \"u2\", \"x\": 2}'' \<noteq> []"
  by (simp_all add: u_def)

lemma example_classify:
  "classify example_env [] = Blank"
  "classify example_env (u ''   '') = Blank"
  "classify example_env (u ''not json'') = Malformed"
  "classify example_env (u ''{\"a\": 1}'') = ObjectLine [(u ''a'', JInt 1)]"
  "classify example_env (u ''5'') = OtherJson (JInt 5)"
  "classify example_env (u ''[1]'') = OtherJson (JList [JInt 1])"
  "classify example_env (u ''{\"user_id\": \"u1\", \"x\": 1}'') =
     ObjectLine [(u ''user_id'', JStr (u ''u1'')), (u ''x'', JInt 1)]"
  "classify example_env (u ''{\"user_id\": \"u2\", \"x\": 2}'') =
     ObjectLine [(u ''user_id'', JStr (u ''u2'')), (u ''x'', JInt 2)]"
  by (simp_all add: classify_def example_env_fields example_strips example_loads example_nonempty)

lemma example_get_objects:
  "example_get_object calls (u ''clicks'') (u ''raw/blank.gz'') = Inr (example_gzip blank_text)"
  "example_get_object calls (u ''clicks'') (u ''raw/mixed.gz'') = Inr (example_gzip mixed_text)"
  "example_get_object calls (u ''clicks'') (u ''raw/scalar.gz'') = Inr (example_gzip scalar_text)"
  "example_get_object calls (u ''clicks'') (u ''raw/list.gz'') = Inr (example_gzip list_text)"
  "example_get_object calls (u ''clicks'') (u ''raw/year=2025/month=11/day=26/file.gz'') =
     Inr (example_gzip two_users_text)"
  "example_get_object calls (u ''clicks'') (u ''other/my file.gz'') = Inr (example_gzip mixed_text)"
  "example_get_object calls (u ''clicks'') (u ''raw/missing.gz'') = Inl (ClientError ''NoSuchKey'')"
  "example_get_object calls (u ''clicks'') (u ''raw/plain.txt'') = Inr (map of_nat mixed_text)"
  "example_get_object calls (u ''clicks'') (u ''raw/latin1.gz'') = Inr [0x1F, 0x8B, 0xFF]"
  by (simp_all add: example_get_object_def u_def)

lemma example_file_content_of:
  "example_get_object (s3_calls w) (u ''clicks'') (example_unquote_plus (u key)) =
     Inr (example_gzip content) \<Longrightarrow> list_all (\<lambda>c. c < 128) content \<Longrightarrow>
   file_content example_env w (notification_for key) = Inr content"
  by (simp add: file_content_def notification_for_def example_env_fields
        example_gzip_roundtrip example_decode_ascii)

lemma example_file_contents:
  "file_content example_env w (notification_for ''raw/blank.gz'') = Inr blank_text"
  "file_content example_env w (notification_for ''raw/mixed.gz'') = Inr mixed_text"
  "file_content example_env w (notification_for ''raw/scalar.gz'') = Inr scalar_text"
  "file_content example_env w (notification_for ''raw/list.gz'') = Inr list_text"
  "file_content example_env w (notification_for ''other/my+file.gz'') = Inr mixed_text"
  "file_content example_env w (notification_for ''raw/year%3D2025/month%3D11/day%3D26/file.gz'')
     = Inr two_users_text"
  by (simp_all add: example_file_content_of example_keys example_get_objects example_texts_ascii)

lemma example_reads:
  "read_of example_env (notification_for ''raw/blank.gz'') = GetObject (u ''clicks'') (u ''raw/blank.gz'')"
  "read_of example_env (notification_for ''raw/mixed.gz'') = GetObject (u ''clicks'') (u ''raw/mixed.gz'')"
  "read_of example_env (notification_for ''raw/scalar.gz'') = GetObject (u ''clicks'') (u ''raw/scalar.gz'')"
  "read_of example_env (notification_for ''raw/list.gz'') = GetObject (u ''clicks'') (u ''raw/list.gz'')"
  "read_of example_env (notification_for ''raw/missing.gz'') = GetObject (u ''clicks'') (u ''raw/missing.gz'')"
  "read_of example_env (notification_for ''other/my+file.gz'') = GetObject (u ''clicks'') (u ''other/my file.gz'')"
  by (simp_all add: read_of_def notification_for_def example_env_fields example_keys)

lemma replicate_pos: "0 < n \<Longrightarrow> replicate n x = x # replicate (n - 1) x"
  by (cases n) simp_all

lemma example_timestamps:
  "isoformat (example_now 0) = u ''2025-11-26T12:00:00+00:00''"
  "isoformat (example_now (Suc 0)) = u ''2025-11-26T12:00:00.000001+00:00''"
  by (simp_all add: isoformat_def example_now_def zero_pad_def decimal.simps replicate_pos u_def)

lemma example_valid_clock: "valid_datetime (example_now n)"
  by (simp add: valid_datetime_def example_now_def)

lemma example_transformed:
  "transformed example_env [(u ''a'', JInt 1)] 0 =
     [(u ''a'', JInt 1), (u ''processed_ts'', JStr (u ''2025-11-26T12:00:00+00:00''))]"
  "transformed example_env [(u ''user_id'', JStr (u ''u1'')), (u ''x'', JInt 1)] 0 =
     [(u ''x'', JInt 1), (u ''processed_ts'', JStr (u ''2025-11-26T12:00:00+00:00''))]"
  "transformed example_env [(u ''user_id'', JStr (u ''u2'')), (u ''x'', JInt 2)] (Suc 0) =
     [(u ''x'', JInt 2), (u ''processed_ts'', JStr (u ''2025-11-26T12:00:00.000001+00:00''))]"
  "transformed example_env [(u ''processed_ts'', JStr (u ''old''))] 0 =
     [(u ''processed_ts'', JStr (u ''2025-11-26T12:00:00+00:00''))]"
  by (simp_all add: transformed_def example_env_fields example_timestamps dict_pop_def)
     (simp_all add: u_def)

lemma example_output_lines:
  "output_line example_env [(u ''a'', JInt 1)] 0 =
     u ''{\"a\": 1, \"processed_ts\": \"2025-11-26T12:00:00+00:00\"}''"
  "output_line example_env [(u ''user_id'', JStr (u ''u1'')), (u ''x'', JInt 1)] 0 =
     u ''{\"x\": 1, \"processed_ts\": \"2025-11-26T12:00:00+00:00\"}''"
  "output_line example_env [(u ''user_id'', JStr (u ''u2'')), (u ''x'', JInt 2)] (Suc 0) =
     u ''{\"x\": 2, \"processed_ts\": \"2025-11-26T12:00:00.000001+00:00\"}''"
  by (simp_all add: output_line_def example_transformed example_env_fields
        example_json_dumps_def example_atom_def decimal.simps)
     (simp_all add: u_def)

lemma example_tolerated:
  "\<forall>l\<in>set (splitlines mixed_text). tolerated example_env l"
  "\<forall>l\<in>set (splitlines two_users_text). tolerated example_env l"
  "\<forall>l\<in>set (splitlines blank_text). tolerated example_env l"
  by (simp_all add: example_lines tolerated_def example_classify)

lemma example_object_lines:
  "object_lines example_env (splitlines mixed_text) = [[(u ''a'', JInt 1)]]"
  "object_lines example_env (splitlines two_users_text) =
     [[(u ''user_id'', JStr (u ''u1'')), (u ''x'', JInt 1)],
      [(u ''user_id'', JStr (u ''u2'')), (u ''x'', JInt 2)]]"
  "object_lines example_env (splitlines scalar_text) = [[(u ''a'', JInt 1)]]"
  by (simp_all add: example_lines object_lines_Cons object_lines_Nil example_classify)

lemma example_expected:
  "expected example_env (splitlines mixed_text) 0 =
     [u ''{\"a\": 1, \"processed_ts\": \"2025-11-26T12:00:00+00:00\"}'']"
  "expected example_env (splitlines two_users_text) 0 =
     [u ''{\"x\": 1, \"processed_ts\": \"2025-11-26T12:00:00+00:00\"}'',
      u ''{\"x\": 2, \"processed_ts\": \"2025-11-26T12:00:00.000001+00:00\"}'']"
proof -
  have "[0 ..< 2] = [0, Suc 0]" by (simp add: upt_rec)
  then show
    "expected example_env (splitlines mixed_text) 0 =
     [u ''{\"a\": 1, \"processed_ts\": \"2025-11-26T12:00:00+00:00\"}'']"
    "expected example_env (splitlines two_users_text) 0 =
     [u ''{\"x\": 1, \"processed_ts\": \"2025-11-26T12:00:00+00:00\"}'',
      u ''{\"x\": 2, \"processed_ts\": \"2025-11-26T12:00:00.000001+00:00\"}'']"
    using example_output_lines
    by (simp_all add: expected_def example_object_lines)
qed

lemma example_runs:
  "process_lines example_env (splitlines mixed_text) [] 0 =
     (Inr [u ''{\"a\": 1, \"processed_ts\": \"2025-11-26T12:00:00+00:00\"}''], 1)"
  "process_lines example_env (splitlines two_users_text) [] 0 =
     (Inr [u ''{\"x\": 1, \"processed_ts\": \"2025-11-26T12:00:00+00:00\"}'',
           u ''{\"x\": 2, \"processed_ts\": \"2025-11-26T12:00:00.000001+00:00\"}''], 2)"
  using process_lines_tolerated[OF example_tolerated(1), of "[]" 0]
        process_lines_tolerated[OF example_tolerated(2), of "[]" 0]
  by (simp_all add: example_expected example_object_lines)

lemma example_more_lines:
  "strip (u ''{\"processed_ts\": \"old\"}'') = u ''{\"processed_ts\": \"old\"}''"
  "u ''{\"processed_ts\": \"old\"}'' \<noteq> []"
  "example_json_loads (u ''{\"processed_ts\": \"old\"}'') =
     Inr (JDict [(u ''processed_ts'', JStr (u ''old''))])"
  by (simp_all add: strip_def isspace_def example_json_loads_def u_def)

lemma example_body:
  "example_encode_utf8
     (join (u [CHR 0x0A]) [u ''{\"a\": 1, \"processed_ts\": \"2025-11-26T12:00:00+00:00\"}'']) =
   Inr (map of_nat (u ''{\"a\": 1, \"processed_ts\": \"2025-11-26T12:00:00+00:00\"}''))"
  by (rule trans[OF _ example_encode_ascii]) (simp_all add: u_def)

lemma example_dest_keys:
  "dest_key (u ''raw/mixed.gz'') = u ''processed/mixedjson''"
  "dest_key (u ''other/my file.gz'') = u ''processed/other/my filejson''"
  by (simp_all add: dest_key_def startswith_def endswith_def u_def)

lemma notification_for_fields:
  "bucket_name (notification_for key) = u ''clicks''"
  "object_key (notification_for key) = u key"
  by (simp_all add: notification_for_def)

lemma example_record_blank:
  "process_record example_env w (notification_for ''raw/blank.gz'') =
     (None, w\<lparr>s3_calls := s3_calls w @ [GetObject (u ''clicks'') (u ''raw/blank.gz'')]\<rparr>)"
proof -
  have "\<forall>l\<in>set (splitlines blank_text). skipped example_env l"
    by (simp add: example_lines skipped_def example_classify)
  from process_record_all_skipped[OF example_file_contents(1) this, of w]
  show ?thesis by (simp add: after_read_def example_reads)
qed

lemma example_record_mixed:
  assumes "clock_reads w = 0"
  shows "process_record example_env w (notification_for ''raw/mixed.gz'') =
     (None, \<lparr>s3_calls = s3_calls w @
         [GetObject (u ''clicks'') (u ''raw/mixed.gz''),
          PutObject (u ''clicks'') (u ''processed/mixedjson'')
            (map of_nat (u ''{\"a\": 1, \"processed_ts\": \"2025-11-26T12:00:00+00:00\"}''))
            (u ''application/json'')],
       clock_reads = 1\<rparr>)"
proof -
  have run: "process_lines example_env (splitlines mixed_text) [] (clock_reads w) =
     (Inr [u ''{\"a\": 1, \"processed_ts\": \"2025-11-26T12:00:00+00:00\"}''], 1)"
    using assms example_runs(1) by simp
  have ne: "[u ''{\"a\": 1, \"processed_ts\": \"2025-11-26T12:00:00+00:00\"}''] \<noteq> []" by simp
  have enc: "encode_utf8 example_env
     (join (u [CHR 0x0A]) [u ''{\"a\": 1, \"processed_ts\": \"2025-11-26T12:00:00+00:00\"}'']) =
     Inr (map of_nat (u ''{\"a\": 1, \"processed_ts\": \"2025-11-26T12:00:00+00:00\"}''))"
    by (simp only: example_env_fields example_body)
  from process_record_writes[OF example_file_contents(2) run ne enc]
  show ?thesis
    by (simp add: example_reads example_env_fields notification_for_fields example_keys
          example_dest_keys)
qed

lemma example_written:
  "PutObject (u ''clicks'') (u ''processed/mixedjson'')
     (map of_nat (u ''{\"a\": 1, \"processed_ts\": \"2025-11-26T12:00:00+00:00\"}''))
     (u ''application/json'') \<in>
   set (drop (length (s3_calls fresh_world))
     (s3_calls (snd (process_record example_env fresh_world (notification_for ''raw/mixed.gz'')))))"
proof -
  have "clock_reads fresh_world = 0" by (simp add: fresh_world_def)
  from example_record_mixed[OF this] show ?thesis by (simp add: fresh_world_def)
qed

lemma read_only_env_fields:
  "unquote_plus read_only_env = example_unquote_plus"
  "s3_get_object read_only_env = example_get_object"
  "s3_put_object read_only_env =
     (\<lambda>calls bucket key body content_type. Some (ClientError ''AccessDenied''))"
  "gzip_read read_only_env = example_gzip_read"
  "decode_utf8 read_only_env = example_decode_utf8"
  "encode_utf8 read_only_env = example_encode_utf8"
  "json_loads read_only_env = example_json_loads"
  "json_dumps read_only_env = example_json_dumps"
  "datetime_now read_only_env = example_now"
  by (simp_all add: read_only_env_def example_env_def)

lemma no_encoder_env_fields:
  "unquote_plus no_encoder_env = example_unquote_plus"
  "s3_get_object no_encoder_env = example_get_object"
  "s3_put_object no_encoder_env = (\<lambda>calls bucket key body content_type. None)"
  "gzip_read no_encoder_env = example_gzip_read"
  "decode_utf8 no_encoder_env = example_decode_utf8"
  "encode_utf8 no_encoder_env = (\<lambda>s. Inl UnicodeEncodeError)"
  "json_loads no_encoder_env = example_json_loads"
  "json_dumps no_encoder_env = example_json_dumps"
  "datetime_now no_encoder_env = example_now"
  by (simp_all add: no_encoder_env_def example_env_def)

lemma other_envs_content:
  "file_content read_only_env w r = file_content example_env w r"
  "file_content no_encoder_env w r = file_content example_env w r"
  by (rule file_content_env; simp add: read_only_env_fields no_encoder_env_fields example_env_fields)+

lemma other_envs_lines:
  "process_lines read_only_env ls acc n = process_lines example_env ls acc n"
  "process_lines no_encoder_env ls acc n = process_lines example_env ls acc n"
  by (rule process_lines_env; simp add: read_only_env_fields no_encoder_env_fields example_env_fields)+

lemma example_failures:
  "example_gzip_read (map of_nat mixed_text) = Inl BadGzipFile"
  "example_gzip_read [0x1F, 0x8B, 0xFF] = Inr [0xFF]"
  "example_decode_utf8 [0xFF] = Inl UnicodeDecodeError"
  by (simp_all add: example_gzip_read_def example_decode_utf8_def mixed_text_def u_def)

lemma example_body_line:
  "example_encode_utf8 (u ''{\"a\": 1, \"processed_ts\": \"2025-11-26T12:00:00+00:00\"}'') =
   Inr (map of_nat (u ''{\"a\": 1, \"processed_ts\": \"2025-11-26T12:00:00+00:00\"}''))"
  using example_body by simp

section \<open>The claims\<close>

text \<open>
  Claim C1. A line that parses as a JSON object \<open>d\<close> adds to the output exactly the
  serialisation of \<open>transformed E d n\<close>, an object without the key \<open>user_id\<close>, whether
  \<open>d\<close> had the key or not; the other keys of \<open>d\<close> keep their values, and when \<open>d\<close> has
  no \<open>user_id\<close> the removal changes nothing. Every line of the output of a run that
  ends normally is the serialisation of an object without \<open>user_id\<close>, and the body
  written to the processed object is made of these lines.
\<close>

theorem user_id_removed:
  assumes "strip line \<noteq> []" and "json_loads E (strip line) = Inr (JDict d)"
  shows "process_lines E (line # rest) acc n =
           process_lines E rest (acc @ [json_dumps E (JDict (transformed E d n))]) (Suc n) \<and>
         u ''user_id'' \<notin> fst ` set (transformed E d n) \<and>
         (\<forall>k. k \<noteq> u ''user_id'' \<and> k \<noteq> u ''processed_ts'' \<longrightarrow>
              map_of (transformed E d n) k = map_of d k) \<and>
         (u ''user_id'' \<notin> fst ` set d \<longrightarrow>
            transformed E d n =
              dict_setitem d (u ''processed_ts'') (JStr (isoformat (datetime_now E n)))) \<and>
         (process_lines E ls [] n0 = (Inr out, m) \<longrightarrow>
            (\<forall>l\<in>set out. \<exists>d'. l = json_dumps E (JDict d') \<and> u ''user_id'' \<notin> fst ` set d')) \<and>
         (PutObject b k body ct \<in>
            set (drop (length (s3_calls w)) (s3_calls (snd (process_record E w r)))) \<longrightarrow>
            (\<exists>written. encode_utf8 E (join (u [CHR 0x0A]) written) = Inr body \<and>
               (\<forall>l\<in>set written. \<exists>d'. l = json_dumps E (JDict d') \<and>
                  u ''user_id'' \<notin> fst ` set d')))"
proof -
  from assms have obj: "classify E line = ObjectLine d" by (simp add: classify_ObjectLine)
  have step: "process_lines E (line # rest) acc n =
           process_lines E rest (acc @ [json_dumps E (JDict (transformed E d n))]) (Suc n)"
    using step_object[OF obj] by (simp add: output_line_def)
  have absent: "transformed E d n =
      dict_setitem d (u ''processed_ts'') (JStr (isoformat (datetime_now E n)))"
    if "u ''user_id'' \<notin> fst ` set d"
    using that by (simp add: transformed_def dict_pop_absent)
  have run: "\<exists>d'. l = json_dumps E (JDict d') \<and> u ''user_id'' \<notin> fst ` set d'"
    if r: "process_lines E xs [] i0 = (Inr ys, j)" and l: "l \<in> set ys" for l xs i0 ys j
  proof -
    from l obtain i where i: "i < length ys" "l = ys ! i" by (auto simp: in_set_conv_nth)
    with output_lines_of_run[OF r]
    have "l = json_dumps E (JDict (transformed E (object_lines E xs ! i) (i0 + i)))"
      by (simp add: output_line_def)
    then show ?thesis using transformed_no_user_id by blast
  qed
  have written: "\<exists>written. encode_utf8 E (join (u [CHR 0x0A]) written) = Inr body \<and>
       (\<forall>l\<in>set written. \<exists>d'. l = json_dumps E (JDict d') \<and> u ''user_id'' \<notin> fst ` set d')"
    if "PutObject b k body ct \<in>
            set (drop (length (s3_calls w)) (s3_calls (snd (process_record E w r))))"
  proof -
    from written_body[OF that] obtain content ys j where
      "process_lines E (splitlines content) [] (clock_reads w) = (Inr ys, j)"
      "encode_utf8 E (join (u [CHR 0x0A]) ys) = Inr body"
      by blast
    with run show ?thesis by blast
  qed
  show ?thesis
    using step transformed_no_user_id[of E d n] transformed_other_keys[of _ E d n] absent
      run[of ls n0 out m] written
    by blast
qed

text \<open>
  C1 on the lines \<open>{"user_id": "u1", "x": 1}\<close> and \<open>{"a": 1}\<close>, on the second line of
  the two-record object, and on the body written for the object \<open>raw/mixed.gz\<close>.
\<close>

theorem user_id_removed_witness:
  "process_lines example_env [u ''{\"user_id\": \"u1\", \"x\": 1}''] [] 0 =
     (Inr [u ''{\"x\": 1, \"processed_ts\": \"2025-11-26T12:00:00+00:00\"}''], 1) \<and>
   u ''user_id'' \<notin> fst ` set
     (transformed example_env [(u ''user_id'', JStr (u ''u1'')), (u ''x'', JInt 1)] 0) \<and>
   map_of (transformed example_env [(u ''user_id'', JStr (u ''u1'')), (u ''x'', JInt 1)] 0)
     (u ''x'') = Some (JInt 1) \<and>
   process_lines example_env [u ''{\"a\": 1}''] [] 0 =
     (Inr [u ''{\"a\": 1, \"processed_ts\": \"2025-11-26T12:00:00+00:00\"}''], 1) \<and>
   transformed example_env [(u ''a'', JInt 1)] 0 =
     dict_setitem [(u ''a'', JInt 1)] (u ''processed_ts'') (JStr (isoformat (example_now 0))) \<and>
   (\<exists>d'. u ''{\"x\": 2, \"processed_ts\": \"2025-11-26T12:00:00.000001+00:00\"}'' =
         example_json_dumps (JDict d') \<and> u ''user_id'' \<notin> fst ` set d') \<and>
   (\<exists>written. example_encode_utf8 (join (u [CHR 0x0A]) written) =
        Inr (map of_nat (u ''{\"a\": 1, \"processed_ts\": \"2025-11-26T12:00:00+00:00\"}'')) \<and>
      (\<forall>l\<in>set written. \<exists>d'. l = example_json_dumps (JDict d') \<and> u ''user_id'' \<notin> fst ` set d'))"
proof -
  have h1: "strip (u ''{\"user_id\": \"u1\", \"x\": 1}'') \<noteq> []"
    "json_loads example_env (strip (u ''{\"user_id\": \"u1\", \"x\": 1}'')) =
       Inr (JDict [(u ''user_id'', JStr (u ''u1'')), (u ''x'', JInt 1)])"
    by (simp_all add: example_strips example_nonempty example_env_fields example_loads)
  have h2: "strip (u ''{\"a\": 1}'') \<noteq> []"
    "json_loads example_env (strip (u ''{\"a\": 1}'')) = Inr (JDict [(u ''a'', JInt 1)])"
    by (simp_all add: example_strips example_nonempty example_env_fields example_loads)
  have keys: "u ''x'' \<noteq> u ''user_id''" "u ''x'' \<noteq> u ''processed_ts''"
    "u ''user_id'' \<notin> fst ` set [(u ''a'', JInt 1)]"
    by (simp_all add: u_def)
  have last: "u ''{\"x\": 2, \"processed_ts\": \"2025-11-26T12:00:00.000001+00:00\"}'' \<in>
      set [u ''{\"x\": 1, \"processed_ts\": \"2025-11-26T12:00:00+00:00\"}'',
           u ''{\"x\": 2, \"processed_ts\": \"2025-11-26T12:00:00.000001+00:00\"}'']"
    by simp
  note a = user_id_removed[OF h1, of "[]" "[]" 0 "splitlines two_users_text" 0 _ 2
      "u ''clicks''" "u ''processed/mixedjson''"
      "map of_nat (u ''{\"a\": 1, \"processed_ts\": \"2025-11-26T12:00:00+00:00\"}'')"
      "u ''application/json''" fresh_world "notification_for ''raw/mixed.gz''"]
  note b = user_id_removed[OF h2, of "[]" "[]" 0 "[]" 0 "[]" 0]
  from a have a1: "process_lines example_env [u ''{\"user_id\": \"u1\", \"x\": 1}''] [] 0 =
     (Inr [u ''{\"x\": 1, \"processed_ts\": \"2025-11-26T12:00:00+00:00\"}''], 1)"
    using example_output_lines(2) by (simp add: output_line_def example_env_fields)
  from a have a2: "u ''user_id'' \<notin> fst ` set
     (transformed example_env [(u ''user_id'', JStr (u ''u1'')), (u ''x'', JInt 1)] 0)"
    by blast
  from a keys have a3:
    "map_of (transformed example_env [(u ''user_id'', JStr (u ''u1'')), (u ''x'', JInt 1)] 0)
       (u ''x'') = Some (JInt 1)"
    by simp
  from a example_runs(2) last have a5:
    "\<exists>d'. u ''{\"x\": 2, \"processed_ts\": \"2025-11-26T12:00:00.000001+00:00\"}'' =
         example_json_dumps (JDict d') \<and> u ''user_id'' \<notin> fst ` set d'"
    by (simp only: example_env_fields)
  from a example_written have a6:
    "\<exists>written. example_encode_utf8 (join (u [CHR 0x0A]) written) =
        Inr (map of_nat (u ''{\"a\": 1, \"processed_ts\": \"2025-11-26T12:00:00+00:00\"}'')) \<and>
      (\<forall>l\<in>set written. \<exists>d'. l = example_json_dumps (JDict d') \<and> u ''user_id'' \<notin> fst ` set d')"
    by (simp only: example_env_fields) blast?
  from b have b1: "process_lines example_env [u ''{\"a\": 1}''] [] 0 =
     (Inr [u ''{\"a\": 1, \"processed_ts\": \"2025-11-26T12:00:00+00:00\"}''], 1)"
    using example_output_lines(1) by (simp add: output_line_def example_env_fields)
  from b keys have b2: "transformed example_env [(u ''a'', JInt 1)] 0 =
     dict_setitem [(u ''a'', JInt 1)] (u ''processed_ts'') (JStr (isoformat (example_now 0)))"
    by (simp only: example_env_fields) blast
  from a1 a2 a3 b1 b2 a5 a6 show ?thesis by (intro conjI)
qed

text \<open>
  Claim C2. A line that parses as a JSON object is written with the key \<open>processed_ts\<close>
  bound to \<open>isoformat\<close> of the clock as read for this very record: the record consumes
  clock read \<open>n\<close> and the rest of the lines go on from read \<open>Suc n\<close>, so that the
  \<open>i\<close>-th line of the output of a run carries the \<open>i\<close>-th read of the run. The value
  replaces whatever \<open>processed_ts\<close> held before (no second entry for the key appears),
  and it is a syntactically valid ISO-8601 timestamp in UTC whenever the clock shows a
  datetime within the ranges of Python's \<open>datetime\<close>. The lines of a body written to
  the processed object carry, one after the other, the clock reads made since the
  notification began.
\<close>

theorem processed_ts_per_record:
  assumes "strip line \<noteq> []" and "json_loads E (strip line) = Inr (JDict d)"
  shows "process_lines E (line # rest) acc n =
           process_lines E rest (acc @ [json_dumps E (JDict (transformed E d n))]) (Suc n) \<and>
         map_of (transformed E d n) (u ''processed_ts'') =
           Some (JStr (isoformat (datetime_now E n))) \<and>
         (valid_datetime (datetime_now E n) \<longrightarrow> is_iso8601_utc (isoformat (datetime_now E n))) \<and>
         (distinct (map fst d) \<longrightarrow> distinct (map fst (transformed E d n))) \<and>
         (process_lines E ls [] n0 = (Inr out, m) \<longrightarrow>
            m = n0 + length out \<and>
            (\<forall>i<length out. \<exists>d'. out ! i = json_dumps E (JDict d') \<and>
               map_of d' (u ''processed_ts'') =
                 Some (JStr (isoformat (datetime_now E (n0 + i)))))) \<and>
         (PutObject b k body ct \<in>
            set (drop (length (s3_calls w)) (s3_calls (snd (process_record E w r)))) \<longrightarrow>
            (\<exists>written. encode_utf8 E (join (u [CHR 0x0A]) written) = Inr body \<and>
               (\<forall>i<length written. \<exists>d'. written ! i = json_dumps E (JDict d') \<and>
                  map_of d' (u ''processed_ts'') =
                    Some (JStr (isoformat (datetime_now E (clock_reads w + i)))))))"
proof -
  from assms have obj: "classify E line = ObjectLine d" by (simp add: classify_ObjectLine)
  have step: "process_lines E (line # rest) acc n =
           process_lines E rest (acc @ [json_dumps E (JDict (transformed E d n))]) (Suc n)"
    using step_object[OF obj] by (simp add: output_line_def)
  have run: "j = i0 + length ys \<and>
      (\<forall>i<length ys. \<exists>d'. ys ! i = json_dumps E (JDict d') \<and>
         map_of d' (u ''processed_ts'') = Some (JStr (isoformat (datetime_now E (i0 + i)))))"
    if r: "process_lines E xs [] i0 = (Inr ys, j)" for xs i0 ys j
  proof -
    have "\<exists>d'. ys ! i = json_dumps E (JDict d') \<and>
         map_of d' (u ''processed_ts'') = Some (JStr (isoformat (datetime_now E (i0 + i))))"
      if "i < length ys" for i
    proof -
      from output_lines_of_run[OF r] that
      have "ys ! i = json_dumps E (JDict (transformed E (object_lines E xs ! i) (i0 + i)))"
        by (simp add: output_line_def)
      then show ?thesis using transformed_processed_ts by blast
    qed
    with output_lines_of_run[OF r] show ?thesis by blast
  qed
  have written: "\<exists>written. encode_utf8 E (join (u [CHR 0x0A]) written) = Inr body \<and>
       (\<forall>i<length written. \<exists>d'. written ! i = json_dumps E (JDict d') \<and>
          map_of d' (u ''processed_ts'') =
            Some (JStr (isoformat (datetime_now E (clock_reads w + i)))))"
    if "PutObject b k body ct \<in>
            set (drop (length (s3_calls w)) (s3_calls (snd (process_record E w r))))"
  proof -
    from written_body[OF that] obtain content ys j where
      "process_lines E (splitlines content) [] (clock_reads w) = (Inr ys, j)"
      "encode_utf8 E (join (u [CHR 0x0A]) ys) = Inr body"
      by blast
    with run show ?thesis by blast
  qed
  show ?thesis
    using step transformed_processed_ts[of E d n] isoformat_valid[of "datetime_now E n"]
      transformed_distinct[of d E n] run[of ls n0 out m] written
    by blast
qed

text \<open>
  C2 on the object with two records, whose lines get two different timestamps, on a
  line that already has a \<open>processed_ts\<close>, and on the body written for the object
  \<open>raw/mixed.gz\<close>.
\<close>

theorem processed_ts_per_record_witness:
  "process_lines example_env (splitlines two_users_text) [] 0 =
     (Inr [u ''{\"x\": 1, \"processed_ts\": \"2025-11-26T12:00:00+00:00\"}'',
           u ''{\"x\": 2, \"processed_ts\": \"2025-11-26T12:00:00.000001+00:00\"}''], 2) \<and>
   is_iso8601_utc (u ''2025-11-26T12:00:00+00:00'') \<and>
   is_iso8601_utc (u ''2025-11-26T12:00:00.000001+00:00'') \<and>
   map_of (transformed example_env [(u ''processed_ts'', JStr (u ''old''))] 0) (u ''processed_ts'')
     = Some (JStr (u ''2025-11-26T12:00:00+00:00'')) \<and>
   distinct (map fst (transformed example_env [(u ''processed_ts'', JStr (u ''old''))] 0)) \<and>
   (\<exists>d'. u ''{\"x\": 2, \"processed_ts\": \"2025-11-26T12:00:00.000001+00:00\"}'' =
           example_json_dumps (JDict d') \<and>
         map_of d' (u ''processed_ts'') = Some (JStr (u ''2025-11-26T12:00:00.000001+00:00''))) \<and>
   (\<exists>written. example_encode_utf8 (join (u [CHR 0x0A]) written) =
        Inr (map of_nat (u ''{\"a\": 1, \"processed_ts\": \"2025-11-26T12:00:00+00:00\"}'')) \<and>
      (\<forall>i<length written. \<exists>d'. written ! i = example_json_dumps (JDict d') \<and>
         map_of d' (u ''processed_ts'') = Some (JStr (isoformat (example_now i)))))"
proof -
  have h1: "strip (u ''{\"user_id\": \"u1\", \"x\": 1}'') \<noteq> []"
    "json_loads example_env (strip (u ''{\"user_id\": \"u1\", \"x\": 1}'')) =
       Inr (JDict [(u ''user_id'', JStr (u ''u1'')), (u ''x'', JInt 1)])"
    by (simp_all add: example_strips example_nonempty example_env_fields example_loads)
  have h2: "strip (u ''{\"user_id\": \"u2\", \"x\": 2}'') \<noteq> []"
    "json_loads example_env (strip (u ''{\"user_id\": \"u2\", \"x\": 2}'')) =
       Inr (JDict [(u ''user_id'', JStr (u ''u2'')), (u ''x'', JInt 2)])"
    by (simp_all add: example_strips example_nonempty example_env_fields example_loads)
  have h3: "strip (u ''{\"processed_ts\": \"old\"}'') \<noteq> []"
    "json_loads example_env (strip (u ''{\"processed_ts\": \"old\"}'')) =
       Inr (JDict [(u ''processed_ts'', JStr (u ''old''))])"
    by (simp_all add: example_more_lines example_env_fields)
  note a = processed_ts_per_record[OF h1,
      of "[u ''{\"user_id\": \"u2\", \"x\": 2}'']" "[]" 0 "splitlines two_users_text" 0 _ 2
      "u ''clicks''" "u ''processed/mixedjson''"
      "map of_nat (u ''{\"a\": 1, \"processed_ts\": \"2025-11-26T12:00:00+00:00\"}'')"
      "u ''application/json''" fresh_world "notification_for ''raw/mixed.gz''"]
  note b = processed_ts_per_record[OF h2, of "[]"
      "[u ''{\"x\": 1, \"processed_ts\": \"2025-11-26T12:00:00+00:00\"}'']" "Suc 0" "[]" 0 "[]" 0]
  note c = processed_ts_per_record[OF h3, of "[]" "[]" 0 "[]" 0 "[]" 0]
  have first: "json_dumps example_env (JDict (transformed example_env
       [(u ''user_id'', JStr (u ''u1'')), (u ''x'', JInt 1)] 0)) =
       u ''{\"x\": 1, \"processed_ts\": \"2025-11-26T12:00:00+00:00\"}''"
    using example_output_lines(2) by (simp add: output_line_def)
  have second: "json_dumps example_env (JDict (transformed example_env
       [(u ''user_id'', JStr (u ''u2'')), (u ''x'', JInt 2)] (Suc 0))) =
       u ''{\"x\": 2, \"processed_ts\": \"2025-11-26T12:00:00.000001+00:00\"}''"
    using example_output_lines(3) by (simp add: output_line_def)
  have 1: "process_lines example_env (splitlines two_users_text) [] 0 =
     (Inr [u ''{\"x\": 1, \"processed_ts\": \"2025-11-26T12:00:00+00:00\"}'',
           u ''{\"x\": 2, \"processed_ts\": \"2025-11-26T12:00:00.000001+00:00\"}''], 2)"
    using a b by (simp only: example_lines first second) simp
  from a example_valid_clock[of 0] have 2: "is_iso8601_utc (u ''2025-11-26T12:00:00+00:00'')"
    by (simp only: example_env_fields example_timestamps) blast?
  from b example_valid_clock[of "Suc 0"]
  have 3: "is_iso8601_utc (u ''2025-11-26T12:00:00.000001+00:00'')"
    by (simp only: example_env_fields example_timestamps) blast?
  from c have 4:
    "map_of (transformed example_env [(u ''processed_ts'', JStr (u ''old''))] 0)
       (u ''processed_ts'') = Some (JStr (u ''2025-11-26T12:00:00+00:00''))"
    by (simp only: example_env_fields example_timestamps) blast?
  from c have 5:
    "distinct (map fst (transformed example_env [(u ''processed_ts'', JStr (u ''old''))] 0))"
    by simp
  have idx: "(1::nat) < length [u ''{\"x\": 1, \"processed_ts\": \"2025-11-26T12:00:00+00:00\"}'',
           u ''{\"x\": 2, \"processed_ts\": \"2025-11-26T12:00:00.000001+00:00\"}'']"
    by simp
  from a 1 have "\<forall>i<2. \<exists>d'.
       [u ''{\"x\": 1, \"processed_ts\": \"2025-11-26T12:00:00+00:00\"}'',
        u ''{\"x\": 2, \"processed_ts\": \"2025-11-26T12:00:00.000001+00:00\"}''] ! i =
         json_dumps example_env (JDict d') \<and>
       map_of d' (u ''processed_ts'') = Some (JStr (isoformat (datetime_now example_env (0 + i))))"
    by simp
  then have "\<exists>d'.
       [u ''{\"x\": 1, \"processed_ts\": \"2025-11-26T12:00:00+00:00\"}'',
        u ''{\"x\": 2, \"processed_ts\": \"2025-11-26T12:00:00.000001+00:00\"}''] ! Suc 0 =
         json_dumps example_env (JDict d') \<and>
       map_of d' (u ''processed_ts'') =
         Some (JStr (isoformat (datetime_now example_env (0 + Suc 0))))"
    by (rule allE[of _ "Suc 0"]) simp
  then have 6: "\<exists>d'. u ''{\"x\": 2, \"processed_ts\": \"2025-11-26T12:00:00.000001+00:00\"}'' =
           example_json_dumps (JDict d') \<and>
         map_of d' (u ''processed_ts'') = Some (JStr (u ''2025-11-26T12:00:00.000001+00:00''))"
    by (simp add: example_env_fields example_timestamps)
  have "clock_reads fresh_world + i = i" for i by (simp add: fresh_world_def)
  with a example_written have 7:
    "\<exists>written. example_encode_utf8 (join (u [CHR 0x0A]) written) =
        Inr (map of_nat (u ''{\"a\": 1, \"processed_ts\": \"2025-11-26T12:00:00+00:00\"}'')) \<and>
      (\<forall>i<length written. \<exists>d'. written ! i = example_json_dumps (JDict d') \<and>
         map_of d' (u ''processed_ts'') = Some (JStr (isoformat (example_now i))))"
    by (simp only: example_env_fields) blast?
  from 1 2 3 4 5 6 7 show ?thesis by (intro conjI)
qed

text \<open>
  Claim C3, as amended. For every decompressed text in which every line is blank after
  trimming, fails JSON parsing with \<open>JSONDecodeError\<close>, or parses as a JSON object: the
  loop ends without an exception; its output has exactly one line for each line that
  parses as an object and none for the others, in the order of the input lines; and
  when there is at least one such line, the object written holds exactly these lines.
  (As stated, for every text, the claim fails: see the counterexample below.)
\<close>

theorem tolerated_lines_in_order:
  assumes "\<forall>l\<in>set (splitlines content). tolerated E l"
  shows "process_lines E (splitlines content) [] n =
           (Inr (map2 (output_line E) (object_lines E (splitlines content))
                   [n ..< n + length (object_lines E (splitlines content))]),
            n + length (object_lines E (splitlines content))) \<and>
         length (object_lines E (splitlines content)) =
           length (filter (\<lambda>l. \<not> skipped E l) (splitlines content)) \<and>
         (file_content E w r = Inr content \<and> object_lines E (splitlines content) \<noteq> [] \<and>
          encode_utf8 E (join (u [CHR 0x0A])
            (map2 (output_line E) (object_lines E (splitlines content))
               [clock_reads w ..< clock_reads w + length (object_lines E (splitlines content))]))
            = Inr body \<longrightarrow>
          s3_calls (snd (process_record E w r)) =
            s3_calls w @
              [GetObject (bucket_name r) (unquote_plus E (object_key r)),
               PutObject (bucket_name r) (dest_key (unquote_plus E (object_key r))) body
                 (u ''application/json'')])"
proof -
  have run: "process_lines E (splitlines content) [] k =
      (Inr (expected E (splitlines content) k), k + length (object_lines E (splitlines content)))"
    for k
    using process_lines_tolerated[OF assms, of "[]" k] by simp
  have written: "s3_calls (snd (process_record E w r)) =
            s3_calls w @
              [GetObject (bucket_name r) (unquote_plus E (object_key r)),
               PutObject (bucket_name r) (dest_key (unquote_plus E (object_key r))) body
                 (u ''application/json'')]"
    if c: "file_content E w r = Inr content" and ne: "object_lines E (splitlines content) \<noteq> []"
      and enc: "encode_utf8 E (join (u [CHR 0x0A]) (expected E (splitlines content) (clock_reads w)))
         = Inr body"
  proof -
    from ne have "expected E (splitlines content) (clock_reads w) \<noteq> []"
      using expected_length[of E "splitlines content" "clock_reads w"] by auto
    from process_record_writes[OF c run this enc] show ?thesis
      by (simp add: read_of_def)
  qed
  show ?thesis
    using run[of n] object_lines_length[OF assms] written
    unfolding expected_def by blast
qed

text \<open>
  C3 on the text \<open>not json\<close>, an empty line, \<open>{"a": 1}\<close>: one output line, for the third
  input line.
\<close>

theorem tolerated_lines_in_order_witness:
  "process_lines example_env (splitlines mixed_text) [] 0 =
     (Inr [u ''{\"a\": 1, \"processed_ts\": \"2025-11-26T12:00:00+00:00\"}''], 1) \<and>
   splitlines mixed_text = [u ''not json'', [], u ''{\"a\": 1}''] \<and>
   length (filter (\<lambda>l. \<not> skipped example_env l) (splitlines mixed_text)) = 1 \<and>
   s3_calls (snd (process_record example_env fresh_world (notification_for ''raw/mixed.gz''))) =
     [GetObject (u ''clicks'') (u ''raw/mixed.gz''),
      PutObject (u ''clicks'') (u ''processed/mixedjson'')
        (map of_nat (u ''{\"a\": 1, \"processed_ts\": \"2025-11-26T12:00:00+00:00\"}''))
        (u ''application/json'')]"
proof -
  note t = tolerated_lines_in_order[OF example_tolerated(1), of 0 fresh_world
      "notification_for ''raw/mixed.gz''"
      "map of_nat (u ''{\"a\": 1, \"processed_ts\": \"2025-11-26T12:00:00+00:00\"}'')"]
  have up: "[0 ..< Suc 0] = [0]" by simp
  from t have 1: "process_lines example_env (splitlines mixed_text) [] 0 =
     (Inr [u ''{\"a\": 1, \"processed_ts\": \"2025-11-26T12:00:00+00:00\"}''], 1)"
    by (simp add: example_object_lines example_output_lines)
  from t have 3: "length (filter (\<lambda>l. \<not> skipped example_env l) (splitlines mixed_text)) = 1"
    by (simp add: example_object_lines)
  from t have 4:
    "s3_calls (snd (process_record example_env fresh_world (notification_for ''raw/mixed.gz''))) =
     [GetObject (u ''clicks'') (u ''raw/mixed.gz''),
      PutObject (u ''clicks'') (u ''processed/mixedjson'')
        (map of_nat (u ''{\"a\": 1, \"processed_ts\": \"2025-11-26T12:00:00+00:00\"}''))
        (u ''application/json'')]"
    by (simp add: example_object_lines example_output_lines example_file_contents
          fresh_world_def example_env_fields example_body_line notification_for_fields
          example_keys example_dest_keys)
  from 1 example_lines(2) 3 4 show ?thesis by (intro conjI)
qed

text \<open>
  The counterexample to C3 as stated: in the text \<open>{"a": 1}\<close>, \<open>5\<close> the first line parses
  as a JSON object, yet it produces no output line: the second line parses as the
  integer 5, \<open>pop\<close> raises \<open>AttributeError\<close> on it, and the handler leaves with that
  exception after the read, without writing anything.
\<close>

theorem object_line_lost_counterexample:
  "splitlines scalar_text = [u ''{\"a\": 1}'', u ''5''] \<and>
   classify example_env (u ''{\"a\": 1}'') = ObjectLine [(u ''a'', JInt 1)] \<and>
   classify example_env (u ''5'') = OtherJson (JInt 5) \<and>
   process_lines example_env (splitlines scalar_text) [] 0 = (Inl AttributeError, 1) \<and>
   process_record example_env fresh_world (notification_for ''raw/scalar.gz'') =
     (Some AttributeError,
      \<lparr>s3_calls = [GetObject (u ''clicks'') (u ''raw/scalar.gz'')], clock_reads = 1\<rparr>)"
proof -
  have run: "process_lines example_env (splitlines scalar_text) [] 0 = (Inl AttributeError, 1)"
    by (simp only: example_lines step_object[OF example_classify(4)]
          step_other_json[OF example_classify(5)]) simp
  then have "process_lines example_env (splitlines scalar_text) [] (clock_reads fresh_world) =
      (Inl AttributeError, 1)"
    by (simp add: fresh_world_def)
  from process_record_lines_fail[OF example_file_contents(3) this]
  have "process_record example_env fresh_world (notification_for ''raw/scalar.gz'') =
     (Some AttributeError,
      \<lparr>s3_calls = [GetObject (u ''clicks'') (u ''raw/scalar.gz'')], clock_reads = 1\<rparr>)"
    by (simp add: after_read_def example_reads fresh_world_def)
  with run example_lines(4) example_classify(4,5) show ?thesis by (intro conjI)
qed

text \<open>
  Claim C4. When every line of the decompressed content is blank or malformed (an empty
  file has no line at all), the notification ends without an exception after its one
  storage read. No write is made, the clock is not read, and the loop goes on with the
  next notification from that world.
\<close>

theorem no_write_without_records:
  assumes "file_content E w r = Inr content"
    and "\<forall>l\<in>set (splitlines content). skipped E l"
  shows "process_record E w r =
           (None, w\<lparr>s3_calls := s3_calls w @
              [GetObject (bucket_name r) (unquote_plus E (object_key r))]\<rparr>) \<and>
         process_records E w (r # rest) =
           process_records E (w\<lparr>s3_calls := s3_calls w @
              [GetObject (bucket_name r) (unquote_plus E (object_key r))]\<rparr>) rest"
  using process_record_all_skipped[OF assms] by (simp add: after_read_def read_of_def)

text \<open>C4 on an object with an empty line, a line of spaces and a malformed line.\<close>

theorem no_write_without_records_witness:
  "process_record example_env fresh_world (notification_for ''raw/blank.gz'') =
     (None, \<lparr>s3_calls = [GetObject (u ''clicks'') (u ''raw/blank.gz'')], clock_reads = 0\<rparr>) \<and>
   process_records example_env fresh_world
       [notification_for ''raw/blank.gz'', notification_for ''raw/missing.gz''] =
     process_records example_env
       \<lparr>s3_calls = [GetObject (u ''clicks'') (u ''raw/blank.gz'')], clock_reads = 0\<rparr>
       [notification_for ''raw/missing.gz'']"
proof -
  have skipped: "\<forall>l\<in>set (splitlines blank_text). skipped example_env l"
    by (simp add: example_lines skipped_def example_classify)
  show ?thesis
    using no_write_without_records[OF example_file_contents(1) skipped,
            of fresh_world "[notification_for ''raw/missing.gz'']"]
    by (simp add: fresh_world_def notification_for_fields example_env_fields example_keys)
qed

text \<open>
  Claim C5. The destination key of a decoded source key: a leading \<open>raw/\<close> is replaced
  by \<open>processed/\<close> and what follows it is kept; a key without that prefix gets
  \<open>processed/\<close> in front of it; then a final \<open>.gz\<close> is cut off and \<open>json\<close> is
  appended with no dot. The four cases, and the two keys the specification gives.
\<close>

theorem destination_key_mapping:
  "dest_key (u ''raw/'' @ stem @ u ''.gz'') = u ''processed/'' @ stem @ u ''json'' \<and>
   (\<not> suffix (u ''.gz'') rest \<longrightarrow> dest_key (u ''raw/'' @ rest) = u ''processed/'' @ rest) \<and>
   (\<not> prefix (u ''raw/'') (stem @ u ''.gz'') \<longrightarrow>
      dest_key (stem @ u ''.gz'') = u ''processed/'' @ stem @ u ''json'') \<and>
   (\<not> prefix (u ''raw/'') k \<and> \<not> suffix (u ''.gz'') k \<longrightarrow> dest_key k = u ''processed/'' @ k) \<and>
   dest_key (u ''raw/year=2025/month=11/day=26/file.gz'') =
     u ''processed/year=2025/month=11/day=26/filejson'' \<and>
   dest_key (u ''other/path/data.gz'') = u ''processed/other/path/datajson''"
proof -
  have ex1: "dest_key (u ''raw/year=2025/month=11/day=26/file.gz'') =
     u ''processed/year=2025/month=11/day=26/filejson''"
    by (simp add: dest_key_def startswith_def endswith_def u_def)
  have ex2: "dest_key (u ''other/path/data.gz'') = u ''processed/other/path/datajson''"
    by (simp add: dest_key_def startswith_def endswith_def u_def)
  show ?thesis
    using dest_key_raw_gz[of stem] dest_key_raw_other[of rest] dest_key_other_gz[of stem]
      dest_key_other[of k] ex1 ex2
    by (intro conjI impI) simp_all
qed

text \<open>The four cases of C5 at concrete keys.\<close>

theorem destination_key_mapping_witness:
  "dest_key (u ''raw/a/b.gz'') = u ''processed/a/bjson'' \<and>
   dest_key (u ''raw/a/b.txt'') = u ''processed/a/b.txt'' \<and>
   dest_key (u ''in/c.gz'') = u ''processed/in/cjson'' \<and>
   dest_key (u ''in/c.csv'') = u ''processed/in/c.csv''"
proof -
  have a: "u ''raw/a/b.gz'' = u ''raw/'' @ u ''a/b'' @ u ''.gz''"
          "u ''raw/a/b.txt'' = u ''raw/'' @ u ''a/b.txt''"
          "u ''in/c.gz'' = u ''in/c'' @ u ''.gz''"
          "u ''processed/a/bjson'' = u ''processed/'' @ u ''a/b'' @ u ''json''"
          "u ''processed/a/b.txt'' = u ''processed/'' @ u ''a/b.txt''"
          "u ''processed/in/cjson'' = u ''processed/'' @ u ''in/c'' @ u ''json''"
          "u ''processed/in/c.csv'' = u ''processed/'' @ u ''in/c.csv''"
    by (simp_all add: u_def)
  have h: "\<not> suffix (u ''.gz'') (u ''a/b.txt'')" "\<not> prefix (u ''raw/'') (u ''in/c'' @ u ''.gz'')"
          "\<not> prefix (u ''raw/'') (u ''in/c.csv'')" "\<not> suffix (u ''.gz'') (u ''in/c.csv'')"
    by (simp_all add: u_def suffix_def prefix_def Cons_eq_append_conv append_eq_Cons_conv)
  show ?thesis
    unfolding a
    using destination_key_mapping[of "u ''a/b''" "u ''a/b.txt''" "u ''in/c.csv''"]
          destination_key_mapping[of "u ''in/c''" "u ''a/b.txt''" "u ''in/c.csv''"] h
    by blast
qed

text \<open>
  Claim C6. Let the notifications \<open>before\<close> be processed without an exception, and let
  the next notification \<open>r\<close> fail with \<open>e\<close> in the storage read, in the decompression, in
  the decoding, in the encoding or in the storage write. Then the handler leaves with
  \<open>e\<close>, in the world as \<open>r\<close> left it, whatever notifications \<open>remaining\<close> follow: none
  of them is processed. The reads made are those of \<open>before\<close> and \<open>r\<close>, in the order of
  the array.
\<close>

theorem failure_aborts_batch:
  assumes "process_records E w before = (None, w1)"
    and "s3_get_object E (s3_calls w1) (bucket_name r) (unquote_plus E (object_key r)) = Inl e \<or>
         (\<exists>raw_body.
            s3_get_object E (s3_calls w1) (bucket_name r) (unquote_plus E (object_key r)) =
              Inr raw_body \<and>
            (gzip_read E raw_body = Inl e \<or>
             (\<exists>decompressed. gzip_read E raw_body = Inr decompressed \<and>
                decode_utf8 E decompressed = Inl e))) \<or>
         (\<exists>content out n. file_content E w1 r = Inr content \<and>
            process_lines E (splitlines content) [] (clock_reads w1) = (Inr out, n) \<and> out \<noteq> [] \<and>
            (encode_utf8 E (join (u [CHR 0x0A]) out) = Inl e \<or>
             (\<exists>body. encode_utf8 E (join (u [CHR 0x0A]) out) = Inr body \<and>
                s3_put_object E
                  (s3_calls w1 @ [GetObject (bucket_name r) (unquote_plus E (object_key r))])
                  (bucket_name r) (dest_key (unquote_plus E (object_key r))) body
                  (u ''application/json'') = Some e)))"
  shows "lambda_handler E w \<lparr>Records = Some (before @ r # remaining)\<rparr> ctx =
           (Inl e, snd (process_record E w1 r)) \<and>
         filter is_read (drop (length (s3_calls w)) (s3_calls (snd (process_record E w1 r)))) =
           map (\<lambda>x. GetObject (bucket_name x) (unquote_plus E (object_key x))) (before @ [r])"
proof -
  from assms(2) have "file_content E w1 r = Inl e \<or>
     (\<exists>content out n. file_content E w1 r = Inr content \<and>
        process_lines E (splitlines content) [] (clock_reads w1) = (Inr out, n) \<and> out \<noteq> [] \<and>
        (encode_utf8 E (join (u [CHR 0x0A]) out) = Inl e \<or>
         (\<exists>body. encode_utf8 E (join (u [CHR 0x0A]) out) = Inr body \<and>
            s3_put_object E (s3_calls w1 @ [read_of E r]) (bucket_name r)
              (dest_key (unquote_plus E (object_key r))) body (u ''application/json'') = Some e)))"
    unfolding file_content_Inl read_of_def by blast
  then have "fst (process_record E w1 r) = Some e" by (rule process_record_fails)
  from batch_stops_at_failure[OF assms(1) this, of remaining]
  have "lambda_handler E w \<lparr>Records = Some (before @ r # remaining)\<rparr> ctx =
           (Inl e, snd (process_record E w1 r))"
    by (simp add: lambda_handler_def)
  moreover have "map (read_of E) (before @ [r]) =
      map (\<lambda>x. GetObject (bucket_name x) (unquote_plus E (object_key x))) (before @ [r])"
    by (simp add: read_of_def)
  ultimately show ?thesis using batch_reads_in_order[OF assms(1), of r] by simp
qed

text \<open>
  C6 on a batch of three whose second object is missing, and on batches that fail in the
  decompression, the decoding, the encoding and the write.
\<close>

theorem failure_aborts_batch_witness:
  "lambda_handler example_env fresh_world
     \<lparr>Records = Some [notification_for ''raw/blank.gz'', notification_for ''raw/missing.gz'',
                       notification_for ''raw/mixed.gz'']\<rparr> () =
     (Inl (ClientError ''NoSuchKey''),
      \<lparr>s3_calls = [GetObject (u ''clicks'') (u ''raw/blank.gz''),
                   GetObject (u ''clicks'') (u ''raw/missing.gz'')],
       clock_reads = 0\<rparr>) \<and>
   fst (lambda_handler example_env fresh_world
     \<lparr>Records = Some [notification_for ''raw/plain.txt'', notification_for ''raw/mixed.gz'']\<rparr> ())
     = Inl BadGzipFile \<and>
   fst (lambda_handler example_env fresh_world
     \<lparr>Records = Some [notification_for ''raw/latin1.gz'', notification_for ''raw/mixed.gz'']\<rparr> ())
     = Inl UnicodeDecodeError \<and>
   fst (lambda_handler no_encoder_env fresh_world
     \<lparr>Records = Some [notification_for ''raw/mixed.gz'', notification_for ''raw/blank.gz'']\<rparr> ())
     = Inl UnicodeEncodeError \<and>
   fst (lambda_handler read_only_env fresh_world
     \<lparr>Records = Some [notification_for ''raw/mixed.gz'', notification_for ''raw/blank.gz'']\<rparr> ())
     = Inl (ClientError ''AccessDenied'') \<and>
   filter is_read (s3_calls (snd (process_record read_only_env fresh_world
      (notification_for ''raw/mixed.gz'')))) = [GetObject (u ''clicks'') (u ''raw/mixed.gz'')]"
proof -
  let ?w1 = "\<lparr>s3_calls = [GetObject (u ''clicks'') (u ''raw/blank.gz'')], clock_reads = 0\<rparr>"
  have before: "process_records example_env fresh_world [notification_for ''raw/blank.gz''] =
      (None, ?w1)"
    by (simp add: example_record_blank fresh_world_def)
  have start: "process_records E fresh_world [] = (None, fresh_world)" for E by simp
  have missing: "s3_get_object example_env (s3_calls ?w1)
      (bucket_name (notification_for ''raw/missing.gz''))
      (unquote_plus example_env (object_key (notification_for ''raw/missing.gz''))) =
      Inl (ClientError ''NoSuchKey'')"
    by (simp add: notification_for_fields example_env_fields example_keys example_get_objects)
  have after_missing: "snd (process_record example_env ?w1 (notification_for ''raw/missing.gz'')) =
      \<lparr>s3_calls = [GetObject (u ''clicks'') (u ''raw/blank.gz''),
                   GetObject (u ''clicks'') (u ''raw/missing.gz'')],
       clock_reads = 0\<rparr>"
    by (simp add: process_record_read_fails[OF missing] after_read_def example_reads)
  have plain: "\<exists>raw_body. s3_get_object example_env (s3_calls fresh_world)
      (bucket_name (notification_for ''raw/plain.txt''))
      (unquote_plus example_env (object_key (notification_for ''raw/plain.txt''))) = Inr raw_body \<and>
      (gzip_read example_env raw_body = Inl BadGzipFile \<or>
       (\<exists>decompressed. gzip_read example_env raw_body = Inr decompressed \<and>
          decode_utf8 example_env decompressed = Inl BadGzipFile))"
    by (simp add: notification_for_fields example_env_fields example_keys example_get_objects
          example_failures)
  have latin1: "\<exists>raw_body. s3_get_object example_env (s3_calls fresh_world)
      (bucket_name (notification_for ''raw/latin1.gz''))
      (unquote_plus example_env (object_key (notification_for ''raw/latin1.gz''))) = Inr raw_body \<and>
      (gzip_read example_env raw_body = Inl UnicodeDecodeError \<or>
       (\<exists>decompressed. gzip_read example_env raw_body = Inr decompressed \<and>
          decode_utf8 example_env decompressed = Inl UnicodeDecodeError))"
    by (simp add: notification_for_fields example_env_fields example_keys example_get_objects
          example_failures)
  have run: "process_lines E (splitlines mixed_text) [] (clock_reads fresh_world) =
      (Inr [u ''{\"a\": 1, \"processed_ts\": \"2025-11-26T12:00:00+00:00\"}''], 1)"
    if "E = no_encoder_env \<or> E = read_only_env" for E
    using that example_runs(1) by (auto simp: other_envs_lines fresh_world_def)
  have content: "file_content E fresh_world (notification_for ''raw/mixed.gz'') = Inr mixed_text"
    if "E = no_encoder_env \<or> E = read_only_env" for E
    using that by (auto simp: other_envs_content example_file_contents)
  have encoder: "\<exists>content out n.
      file_content no_encoder_env fresh_world (notification_for ''raw/mixed.gz'') = Inr content \<and>
      process_lines no_encoder_env (splitlines content) [] (clock_reads fresh_world) = (Inr out, n) \<and>
      out \<noteq> [] \<and>
      (encode_utf8 no_encoder_env (join (u [CHR 0x0A]) out) = Inl UnicodeEncodeError \<or>
       (\<exists>body. encode_utf8 no_encoder_env (join (u [CHR 0x0A]) out) = Inr body \<and>
          s3_put_object no_encoder_env
            (s3_calls fresh_world @
               [GetObject (bucket_name (notification_for ''raw/mixed.gz''))
                  (unquote_plus no_encoder_env (object_key (notification_for ''raw/mixed.gz'')))])
            (bucket_name (notification_for ''raw/mixed.gz''))
            (dest_key (unquote_plus no_encoder_env (object_key (notification_for ''raw/mixed.gz''))))
            body (u ''application/json'') = Some UnicodeEncodeError))"
    using content[of no_encoder_env] run[of no_encoder_env]
    by (intro exI[of _ mixed_text]
          exI[of _ "[u ''{\"a\": 1, \"processed_ts\": \"2025-11-26T12:00:00+00:00\"}'']"]
          exI[of _ 1]) (simp add: no_encoder_env_fields)
  have writer: "\<exists>content out n.
      file_content read_only_env fresh_world (notification_for ''raw/mixed.gz'') = Inr content \<and>
      process_lines read_only_env (splitlines content) [] (clock_reads fresh_world) = (Inr out, n) \<and>
      out \<noteq> [] \<and>
      (encode_utf8 read_only_env (join (u [CHR 0x0A]) out) = Inl (ClientError ''AccessDenied'') \<or>
       (\<exists>body. encode_utf8 read_only_env (join (u [CHR 0x0A]) out) = Inr body \<and>
          s3_put_object read_only_env
            (s3_calls fresh_world @
               [GetObject (bucket_name (notification_for ''raw/mixed.gz''))
                  (unquote_plus read_only_env (object_key (notification_for ''raw/mixed.gz'')))])
            (bucket_name (notification_for ''raw/mixed.gz''))
            (dest_key (unquote_plus read_only_env (object_key (notification_for ''raw/mixed.gz''))))
            body (u ''application/json'') = Some (ClientError ''AccessDenied'')))"
    using content[of read_only_env] run[of read_only_env]
    by (intro exI[of _ mixed_text]
          exI[of _ "[u ''{\"a\": 1, \"processed_ts\": \"2025-11-26T12:00:00+00:00\"}'']"]
          exI[of _ 1]) (simp add: read_only_env_fields example_body_line)
  note a = failure_aborts_batch[OF before disjI1, OF missing,
             of "[notification_for ''raw/mixed.gz'']" "()"]
  note b = failure_aborts_batch[OF start disjI2, OF disjI1, OF plain,
             of "[notification_for ''raw/mixed.gz'']" "()"]
  note c = failure_aborts_batch[OF start disjI2, OF disjI1, OF latin1,
             of "[notification_for ''raw/mixed.gz'']" "()"]
  note d = failure_aborts_batch[OF start disjI2, OF disjI2, OF encoder,
             of "[notification_for ''raw/blank.gz'']" "()"]
  note e = failure_aborts_batch[OF start disjI2, OF disjI2, OF writer,
             of "[notification_for ''raw/blank.gz'']" "()"]
  have reads: "GetObject (bucket_name (notification_for ''raw/mixed.gz''))
      (unquote_plus read_only_env (object_key (notification_for ''raw/mixed.gz''))) =
      GetObject (u ''clicks'') (u ''raw/mixed.gz'')"
    by (simp add: notification_for_fields read_only_env_fields example_keys)
  from a after_missing have 1: "lambda_handler example_env fresh_world
     \<lparr>Records = Some [notification_for ''raw/blank.gz'', notification_for ''raw/missing.gz'',
                       notification_for ''raw/mixed.gz'']\<rparr> () =
     (Inl (ClientError ''NoSuchKey''),
      \<lparr>s3_calls = [GetObject (u ''clicks'') (u ''raw/blank.gz''),
                   GetObject (u ''clicks'') (u ''raw/missing.gz'')],
       clock_reads = 0\<rparr>)" by simp
  from e reads have 6: "filter is_read (s3_calls (snd (process_record read_only_env fresh_world
      (notification_for ''raw/mixed.gz'')))) = [GetObject (u ''clicks'') (u ''raw/mixed.gz'')]"
    by (simp add: fresh_world_def)
  from 1 b c d e 6 show ?thesis by simp
qed

text \<open>
  Claim C7. Whenever the handler returns a value, the value is \<open>{"status": "ok"}\<close>: one
  key and nothing that counts notifications.
\<close>

theorem handler_returns_status_ok:
  "fst (lambda_handler E w ev ctx) = Inr v \<Longrightarrow> v = JDict [(u ''status'', JStr (u ''ok''))]"
  by (auto simp: lambda_handler_def status_ok_def split: prod.splits option.splits)

text \<open>
  C7 on a batch of one notification that is written and one that is skipped, and on the
  empty batch.
\<close>

theorem handler_returns_status_ok_witness:
  "fst (lambda_handler example_env fresh_world
      \<lparr>Records = Some [notification_for ''raw/mixed.gz'', notification_for ''raw/blank.gz'']\<rparr> ())
     = Inr (JDict [(u ''status'', JStr (u ''ok''))]) \<and>
   fst (lambda_handler example_env fresh_world \<lparr>Records = Some []\<rparr> ())
     = Inr (JDict [(u ''status'', JStr (u ''ok''))])"
proof -
  let ?a = "lambda_handler example_env fresh_world
      \<lparr>Records = Some [notification_for ''raw/mixed.gz'', notification_for ''raw/blank.gz'']\<rparr> ()"
  let ?b = "lambda_handler example_env fresh_world \<lparr>Records = Some []\<rparr> ()"
  have "clock_reads fresh_world = 0" by (simp add: fresh_world_def)
  from example_record_mixed[OF this]
  have a: "fst ?a = Inr (projr (fst ?a))"
    by (simp add: lambda_handler_def example_record_blank)
  have b: "fst ?b = Inr (projr (fst ?b))"
    by (simp add: lambda_handler_def)
  from handler_returns_status_ok[OF a] handler_returns_status_ok[OF b] a b
  show ?thesis by simp
qed

text \<open>
  Claim C8. The storage read of a notification is made at the key \<open>unquote_plus\<close> gives
  for the key of the event, and the write, when there is one, at the destination key of
  that decoded key. The key of the event is used in no other way: two notifications of
  one bucket whose keys decode to the same key are processed alike.
\<close>

theorem key_decoded_before_use:
  "(\<exists>puts. s3_calls (snd (process_record E w r)) =
       s3_calls w @ GetObject (bucket_name r) (unquote_plus E (object_key r)) # puts \<and>
     (puts = [] \<or>
      (\<exists>body. puts = [PutObject (bucket_name r) (dest_key (unquote_plus E (object_key r))) body
                        (u ''application/json'')]))) \<and>
   (bucket_name r' = bucket_name r \<and> unquote_plus E (object_key r') = unquote_plus E (object_key r)
      \<longrightarrow> process_record E w r' = process_record E w r)"
proof -
  have "process_record E w r' = process_record E w r"
    if "bucket_name r' = bucket_name r"
      "unquote_plus E (object_key r') = unquote_plus E (object_key r)"
    using that by (simp add: process_record_def)
  with process_record_calls[of E w r] show ?thesis
    by (simp add: read_of_def)
qed

text \<open>
  C8 on the keys \<open>other/my+file.gz\<close> and \<open>other/my%20file.gz\<close>, which both decode to
  \<open>other/my file.gz\<close>.
\<close>

theorem key_decoded_before_use_witness:
  "(\<exists>puts. s3_calls (snd (process_record example_env fresh_world
               (notification_for ''other/my+file.gz''))) =
       GetObject (u ''clicks'') (u ''other/my file.gz'') # puts \<and>
     (puts = [] \<or>
      (\<exists>body. puts = [PutObject (u ''clicks'') (u ''processed/other/my filejson'') body
                        (u ''application/json'')]))) \<and>
   process_record example_env fresh_world (notification_for ''other/my%20file.gz'') =
     process_record example_env fresh_world (notification_for ''other/my+file.gz'')"
  using key_decoded_before_use[of example_env fresh_world "notification_for ''other/my+file.gz''"
          "notification_for ''other/my%20file.gz''"]
  by (simp add: notification_for_fields example_env_fields example_keys example_dest_keys
        fresh_world_def)

text \<open>
  Claim C9. When a line parses as a JSON value \<open>v\<close> that is not an object, and the lines
  before it are blank, malformed or objects, the notification ends with the exception
  \<open>pop\<close> raises on \<open>v\<close> (\<open>TypeError\<close> for a list, \<open>AttributeError\<close> otherwise): nothing
  is written, and the handler leaves with that exception without processing the
  notifications that follow.
\<close>

theorem non_object_json_aborts:
  assumes "file_content E w r = Inr content"
    and "splitlines content = earlier @ line # later"
    and "\<forall>l\<in>set earlier. tolerated E l"
    and "classify E line = OtherJson v"
  shows "fst (process_record E w r) =
           Some (case v of JList xs \<Rightarrow> TypeError | other \<Rightarrow> AttributeError) \<and>
         s3_calls (snd (process_record E w r)) =
           s3_calls w @ [GetObject (bucket_name r) (unquote_plus E (object_key r))] \<and>
         lambda_handler E w \<lparr>Records = Some (r # remaining)\<rparr> ctx =
           (Inl (case v of JList xs \<Rightarrow> TypeError | other \<Rightarrow> AttributeError),
            snd (process_record E w r))"
proof -
  let ?e = "case v of JList xs \<Rightarrow> TypeError | other \<Rightarrow> AttributeError"
  let ?n = "clock_reads w + length (object_lines E earlier)"
  have a: "process_lines E earlier [] (clock_reads w) =
      (Inr (expected E earlier (clock_reads w)), ?n)"
    using process_lines_tolerated[OF assms(3), of "[]" "clock_reads w"] by simp
  have b: "process_lines E (line # later) acc ?n = (Inl ?e, ?n)" for acc
    using assms(4) by (rule step_other_json)
  have "process_lines E (splitlines content) [] (clock_reads w) = (Inl ?e, ?n)"
    by (simp only: assms(2) process_lines_append a b prod.case sum.case)
  from process_record_lines_fail[OF assms(1) this]
  have pr: "process_record E w r = (Some ?e, (after_read E w r)\<lparr>clock_reads := ?n\<rparr>)" .
  then show ?thesis
    by (simp add: lambda_handler_def after_read_def read_of_def)
qed

text \<open>C9 on an object whose second line is \<open>5\<close>, and on one whose only line is \<open>[1]\<close>.\<close>

theorem non_object_json_aborts_witness:
  "lambda_handler example_env fresh_world
     \<lparr>Records = Some [notification_for ''raw/scalar.gz'', notification_for ''raw/mixed.gz'']\<rparr> () =
     (Inl AttributeError,
      snd (process_record example_env fresh_world (notification_for ''raw/scalar.gz''))) \<and>
   s3_calls (snd (process_record example_env fresh_world (notification_for ''raw/scalar.gz''))) =
     [GetObject (u ''clicks'') (u ''raw/scalar.gz'')] \<and>
   fst (process_record example_env fresh_world (notification_for ''raw/list.gz'')) = Some TypeError"
proof -
  have l1: "splitlines scalar_text = [u ''{\"a\": 1}''] @ u ''5'' # []"
    by (simp add: example_lines)
  have t1: "\<forall>l\<in>set [u ''{\"a\": 1}'']. tolerated example_env l"
    by (simp add: tolerated_def example_classify)
  have l2: "splitlines list_text = [] @ u ''[1]'' # []"
    by (simp add: example_lines)
  have t2: "\<forall>l\<in>set []. tolerated example_env l" by simp
  show ?thesis
    using non_object_json_aborts[OF example_file_contents(3) l1 t1 example_classify(5),
            of fresh_world "[notification_for ''raw/mixed.gz'']" "()"]
          non_object_json_aborts[OF example_file_contents(4) l2 t2 example_classify(6),
            of fresh_world "[]" "()"]
    by (simp add: fresh_world_def notification_for_fields example_env_fields example_keys)
qed

text \<open>
  Claim C10. When the event has no \<open>Records\<close> key, or its \<open>Records\<close> list is empty, the
  handler returns \<open>{"status": "ok"}\<close> and leaves the world as it was: no storage call
  and no clock read.
\<close>

theorem no_records_no_effect:
  "Records ev = None \<or> Records ev = Some [] \<Longrightarrow>
   lambda_handler E w ev ctx = (Inr status_ok, w)"
  by (auto simp: lambda_handler_def)

text \<open>C10 on an event without \<open>Records\<close> and on one with an empty list.\<close>

theorem no_records_no_effect_witness:
  "lambda_handler example_env fresh_world \<lparr>Records = None\<rparr> () = (Inr status_ok, fresh_world) \<and>
   lambda_handler example_env fresh_world \<lparr>Records = Some []\<rparr> () = (Inr status_ok, fresh_world)"
  using no_records_no_effect[of "\<lparr>Records = None\<rparr>" example_env fresh_world "()"]
        no_records_no_effect[of "\<lparr>Records = Some []\<rparr>" example_env fresh_world "()"]
  by simp

end
